theory Spec2Isabelle
  imports Complex_Main "HOL-Library.Sublist" "HOL-Library.Log_Nat"
begin

section \<open>Data model\<close>

text \<open>
  An opportunity row as the frontend reads it from \<^verbatim>\<open>GET /opportunities\<close>. The \<^verbatim>\<open>id\<close> is
  optional (a row that was never persisted has none); the field is called \<open>id'\<close> here
  because \<open>id\<close> is the identity function of HOL. A row carries the decimal numbers of the
  JSON text as rationals. The comparisons of \<^verbatim>\<open>confidence_score\<close> with the literals \<^verbatim>\<open>0.7\<close>
  and \<^verbatim>\<open>70\<close> are made on these rationals: the decimal literal \<^verbatim>\<open>0.7\<close> denotes the same number
  in a row and in the code. The average of the dashboard is computed in the double
  arithmetic of the runtime, on the double nearest to each score, since rounding decides
  its result. A \<^verbatim>\<open>price\<close> that is absent or not numeric is \<open>None\<close>.
\<close>

record opportunity =
  id' :: "nat option"
  ticker :: string
  setup_type :: string
  price :: "rat option"
  confidence_score :: rat
  timeframe :: string

section \<open>String operations of the runtime\<close>

text \<open>
  Strings are lists of 8-bit characters. \<^verbatim>\<open>String.prototype.toLowerCase\<close> is modelled on the
  ASCII letters, \<^verbatim>\<open>includes\<close> (here \<open>includes'\<close>, the plain name being a keyword) is the
  contiguous-substring test, and \<^verbatim>\<open>trim\<close> removes the
  white space of ECMAScript that fits in eight bits (TAB, LF, VT, FF, CR, SP, NBSP) from
  both ends.
\<close>

definition toLowerCase_char :: "char \<Rightarrow> char" where
  "toLowerCase_char c =
     (case map_of (zip ''ABCDEFGHIJKLMNOPQRSTUVWXYZ'' ''abcdefghijklmnopqrstuvwxyz'') c of
        Some l \<Rightarrow> l
      | None \<Rightarrow> c)"

definition toLowerCase :: "string \<Rightarrow> string" where
  "toLowerCase s = map toLowerCase_char s"

fun includes' :: "string \<Rightarrow> string \<Rightarrow> bool" where
  "includes' [] sub = (sub = [])"
| "includes' (c # cs) sub = (prefix sub (c # cs) \<or> includes' cs sub)"

definition isWhiteSpace :: "char \<Rightarrow> bool" where
  "isWhiteSpace c = ((of_char c :: nat) \<in> {9, 10, 11, 12, 13, 32, 160})"

definition trim :: "string \<Rightarrow> string" where
  "trim s = rev (dropWhile isWhiteSpace (rev (dropWhile isWhiteSpace s)))"

section \<open>Numbers of the runtime\<close>

text \<open>
  A JavaScript Number is an IEEE 754 binary64 value: \<^verbatim>\<open>NaN\<close>, an infinity, or a finite
  rational with a 53-bit significand. The two zeros are identified: nothing below tells
  them apart. \<open>fl\<close> is the rounding every arithmetic operation and the JSON parser apply to
  the exact result: to the nearest representable value, a tie going to the even
  significand, a magnitude of \<open>2 ^ 1024\<close> or more becoming an infinity. For a positive \<open>x\<close>,
  \<open>ilog2 x\<close> is the exponent \<open>e\<close> with \<open>2 powi e \<le> x < 2 powi (e + 1)\<close>; the spacing of the
  representable values around \<open>x\<close> is \<open>2 powi (e - 52)\<close>, and \<open>2 powi (- 1074)\<close> below the
  normal range.
\<close>

datatype number = NaN | PosInfinity | NegInfinity | Finite rat

definition ilog2 :: "rat \<Rightarrow> int" where
  "ilog2 x = (let (p, q) = quotient_of x; e = bitlen p - bitlen q
              in if 2 powi e \<le> x then e else e - 1)"

definition round_half_even :: "rat \<Rightarrow> int" where
  "round_half_even x =
     (let f = \<lfloor>x\<rfloor>; r = x - of_int f
      in if r < 1 / 2 then f else if 1 / 2 < r then f + 1 else if even f then f else f + 1)"

definition binary64_round :: "rat \<Rightarrow> rat" where
  "binary64_round x =
     (if x = 0 then 0
      else let a = \<bar>x\<bar>; e = max (ilog2 a) (- 1022); q = 2 powi (e - 52)
           in sgn x * of_int (round_half_even (a / q)) * q)"

definition fl :: "rat \<Rightarrow> number" where
  "fl x = (let r = binary64_round x
           in if 2 ^ 1024 \<le> \<bar>r\<bar> then (if 0 < x then PosInfinity else NegInfinity)
              else Finite r)"

text \<open>
  The operators \<^verbatim>\<open>+\<close>, \<^verbatim>\<open>*\<close> and \<^verbatim>\<open>/\<close> on Numbers, and \<^verbatim>\<open>Math.round\<close>, which returns the
  nearest integer, a tie going towards \<open>+\<infinity>\<close>, and returns \<^verbatim>\<open>NaN\<close> and the infinities
  unchanged.
\<close>

definition signed_infinity :: "bool \<Rightarrow> number" where
  "signed_infinity negative = (if negative then NegInfinity else PosInfinity)"

fun is_negative :: "number \<Rightarrow> bool" where
  "is_negative NegInfinity = True"
| "is_negative (Finite a) = (a < 0)"
| "is_negative x = False"

fun num_add :: "number \<Rightarrow> number \<Rightarrow> number" where
  "num_add NaN y = NaN"
| "num_add x NaN = NaN"
| "num_add (Finite a) (Finite b) = fl (a + b)"
| "num_add PosInfinity NegInfinity = NaN"
| "num_add NegInfinity PosInfinity = NaN"
| "num_add PosInfinity y = PosInfinity"
| "num_add NegInfinity y = NegInfinity"
| "num_add x y = y"

fun num_mul :: "number \<Rightarrow> number \<Rightarrow> number" where
  "num_mul NaN y = NaN"
| "num_mul x NaN = NaN"
| "num_mul (Finite a) (Finite b) = fl (a * b)"
| "num_mul x y =
     (if x = Finite 0 \<or> y = Finite 0 then NaN
      else signed_infinity (is_negative x \<noteq> is_negative y))"

fun num_div :: "number \<Rightarrow> number \<Rightarrow> number" where
  "num_div NaN y = NaN"
| "num_div x NaN = NaN"
| "num_div (Finite a) (Finite b) =
     (if b = 0 then (if a = 0 then NaN else signed_infinity (a < 0)) else fl (a / b))"
| "num_div (Finite a) y = Finite 0"
| "num_div x (Finite b) = signed_infinity (is_negative x \<noteq> (b < 0))"
| "num_div x y = NaN"

fun Math_round :: "number \<Rightarrow> number" where
  "Math_round (Finite x) = Finite (of_int \<lfloor>x + 1 / 2\<rfloor>)"
| "Math_round x = x"

section \<open>Filter and search (Opportunities.jsx, \<^verbatim>\<open>filteredOpportunities\<close>)\<close>

text \<open>
  \<^verbatim>\<open>
  const filteredOpportunities = opportunities.filter(opp => {
    const matchesSearch = searchTerm === '' ||
      opp.ticker.toLowerCase().includes(searchTerm.toLowerCase()) ||
      opp.setup_type.toLowerCase().includes(searchTerm.toLowerCase())
    const matchesFilter = filterType === 'all' ||
      (filterType === 'bullish' && (... includes('bullish') || ... includes('momentum'))) ||
      (filterType === 'bearish' && (... includes('short') || ... includes('bear'))) ||
      (filterType === 'high-confidence' && opp.confidence_score >= 0.7)
    return matchesSearch && matchesFilter
  })
  \<close>
  The component reads \<^verbatim>\<open>opportunities\<close>, \<^verbatim>\<open>searchTerm\<close> and \<^verbatim>\<open>filterType\<close> from its state; here
  they are the three arguments.
\<close>

definition matchesSearch :: "string \<Rightarrow> opportunity \<Rightarrow> bool" where
  "matchesSearch searchTerm opp =
     (searchTerm = '''' \<or>
      includes' (toLowerCase (ticker opp)) (toLowerCase searchTerm) \<or>
      includes' (toLowerCase (setup_type opp)) (toLowerCase searchTerm))"

definition matchesFilter :: "string \<Rightarrow> opportunity \<Rightarrow> bool" where
  "matchesFilter filterType opp =
     (filterType = ''all'' \<or>
      (filterType = ''bullish'' \<and>
         (includes' (toLowerCase (setup_type opp)) ''bullish'' \<or>
          includes' (toLowerCase (setup_type opp)) ''momentum'')) \<or>
      (filterType = ''bearish'' \<and>
         (includes' (toLowerCase (setup_type opp)) ''short'' \<or>
          includes' (toLowerCase (setup_type opp)) ''bear'')) \<or>
      (filterType = ''high-confidence'' \<and> confidence_score opp \<ge> 7 / 10))"

definition filteredOpportunities ::
    "opportunity list \<Rightarrow> string \<Rightarrow> string \<Rightarrow> opportunity list" where
  "filteredOpportunities store searchTerm filterType =
     filter (\<lambda>opp. matchesSearch searchTerm opp \<and> matchesFilter filterType opp) store"

section \<open>HTTP requests and the backend\<close>

text \<open>
  Every \<^verbatim>\<open>await axios.get(...)\<close> or \<^verbatim>\<open>await axios.post(...)\<close> either resolves with a response
  or rejects with an error that carries a \<^verbatim>\<open>message\<close> (a network error, or a response whose
  status is not 2xx). The backend is a black box: what it answers may depend on every
  request sent so far, the current one included. The world records the requests issued,
  the lines written to the console, and the string that
  \<^verbatim>\<open>new Date().toLocaleTimeString()\<close> returns. A request that never settles is outside this
  model: each operation below is described for runs whose requests settle.
\<close>

datatype http_method = GET | POST

datatype payload =
    NoPayload
  | Research string int   \<comment> \<open>\<^verbatim>\<open>{query, lookback_days}\<close>\<close>
  | Chat string           \<comment> \<open>\<^verbatim>\<open>{message}\<close>\<close>

record request =
  req_method :: http_method
  url :: string
  headers :: "(string \<times> string) list"
  data :: payload

datatype 'a outcome = Resolved 'a | Rejected string

record backend =
  health :: "request list \<Rightarrow> unit outcome"
  list_opportunities :: "request list \<Rightarrow> opportunity list option outcome"
  research :: "request list \<Rightarrow> opportunity list option outcome"
  chat :: "request list \<Rightarrow> string outcome"

record world =
  requests :: "request list"
  console :: "string list"
  clock :: string

definition API_BASE_URL :: string where
  "API_BASE_URL = ''http://localhost:8001''"

definition API_TOKEN :: string where
  "API_TOKEN = ''dev-key-12345''"

definition axios_get ::
    "(request list \<Rightarrow> 'a outcome) \<Rightarrow> string \<Rightarrow> (string \<times> string) list \<Rightarrow> world \<Rightarrow>
     'a outcome \<times> world" where
  "axios_get endpoint u hs w =
     (let rs = requests w @ [\<lparr>req_method = GET, url = u, headers = hs, data = NoPayload\<rparr>]
      in (endpoint rs, w\<lparr>requests := rs\<rparr>))"

definition axios_post ::
    "(request list \<Rightarrow> 'a outcome) \<Rightarrow> string \<Rightarrow> payload \<Rightarrow> (string \<times> string) list \<Rightarrow> world \<Rightarrow>
     'a outcome \<times> world" where
  "axios_post endpoint u d hs w =
     (let rs = requests w @ [\<lparr>req_method = POST, url = u, headers = hs, data = d\<rparr>]
      in (endpoint rs, w\<lparr>requests := rs\<rparr>))"

definition console_log :: "string \<Rightarrow> world \<Rightarrow> world" where
  "console_log line w = w\<lparr>console := console w @ [line]\<rparr>"

text \<open>The three requests the pages send, as the source writes them.\<close>

definition health_request :: request where
  "health_request =
     \<lparr>req_method = GET, url = API_BASE_URL @ ''/health'', headers = [], data = NoPayload\<rparr>"

definition opportunities_request :: request where
  "opportunities_request =
     \<lparr>req_method = GET, url = API_BASE_URL @ ''/opportunities'',
      headers = [(''Authorization'', ''Bearer '' @ API_TOKEN)], data = NoPayload\<rparr>"

definition research_request :: request where
  "research_request =
     \<lparr>req_method = POST, url = API_BASE_URL @ ''/research'',
      headers = [(''Authorization'', ''Bearer '' @ API_TOKEN),
                 (''Content-Type'', ''application/json'')],
      data = Research ''Find technical trading opportunities'' 30\<rparr>"

text \<open>\<^verbatim>\<open>response.data || []\<close>: a body that is \<^verbatim>\<open>null\<close> or absent becomes the empty list.\<close>

definition data_or_empty :: "opportunity list option \<Rightarrow> opportunity list" where
  "data_or_empty d = (case d of None \<Rightarrow> [] | Some rows \<Rightarrow> rows)"

section \<open>The Opportunities page (Opportunities.jsx)\<close>

record Opportunities =
  opportunities :: "opportunity list"
  loading :: bool
  error :: "string option"
  isAgentRunning :: bool
  agentStatus :: string
  selectedOpportunity :: "opportunity option"
  isModalOpen :: bool
  lastAnalysisTime :: "string option"
  searchTerm :: string
  filterType :: string

text \<open>
  \<^verbatim>\<open>
  const checkAgentHealth = async () => {
    try {
      const response = await axios.get(`${API_BASE_URL}/health`)
      setAgentStatus('connected')
      console.log('Agent health:', response.data)
    } catch (err) {
      setAgentStatus('disconnected')
      setError('Unable to connect to Technical Researcher Agent')
    }
  }
  \<close>
\<close>

definition checkAgentHealth :: "backend \<Rightarrow> Opportunities \<times> world \<Rightarrow> Opportunities \<times> world" where
  "checkAgentHealth b = (\<lambda>(s, w).
     case axios_get (health b) (API_BASE_URL @ ''/health'') [] w of
       (Resolved response, w1) \<Rightarrow>
         (s\<lparr>agentStatus := ''connected''\<rparr>, console_log ''Agent health:'' w1)
     | (Rejected message, w1) \<Rightarrow>
         (s\<lparr>agentStatus := ''disconnected'',
            error := Some ''Unable to connect to Technical Researcher Agent''\<rparr>, w1))"

text \<open>
  \<^verbatim>\<open>
  const loadExistingOpportunities = async () => {
    try {
      const response = await axios.get(`${API_BASE_URL}/opportunities`, {
        headers: { 'Authorization': `Bearer ${API_TOKEN}` }
      })
      setOpportunities(response.data || [])
    } catch (err) {
      console.error('Failed to load existing opportunities:', err.message)
    }
  }
  \<close>
\<close>

definition loadExistingOpportunities ::
    "backend \<Rightarrow> Opportunities \<times> world \<Rightarrow> Opportunities \<times> world" where
  "loadExistingOpportunities b = (\<lambda>(s, w).
     case axios_get (list_opportunities b) (API_BASE_URL @ ''/opportunities'')
            [(''Authorization'', ''Bearer '' @ API_TOKEN)] w of
       (Resolved response, w1) \<Rightarrow> (s\<lparr>opportunities := data_or_empty response\<rparr>, w1)
     | (Rejected message, w1) \<Rightarrow>
         (s, console_log (''Failed to load existing opportunities: '' @ message) w1))"

text \<open>
  \<^verbatim>\<open>
  const runTechnicalAnalysis = async () => {
    setLoading(true); setError(null); setIsAgentRunning(true)
    try {
      await axios.post(`${API_BASE_URL}/research`, {query: ..., lookback_days: 30}, {headers})
      const response = await axios.get(`${API_BASE_URL}/opportunities`, {headers})
      setOpportunities(response.data || [])
      setLastAnalysisTime(new Date().toLocaleTimeString())
    } catch (err) {
      setError('Failed to fetch trading opportunities: ' + err.message)
    } finally {
      setLoading(false); setIsAgentRunning(false)
    }
  }
  \<close>
  The body of the \<^verbatim>\<open>try\<close> returns the message of the error it threw, if any, with the state
  and world it reached; the \<^verbatim>\<open>catch\<close> and the \<^verbatim>\<open>finally\<close> follow.
\<close>

definition runTechnicalAnalysis_try ::
    "backend \<Rightarrow> Opportunities \<times> world \<Rightarrow> string option \<times> Opportunities \<times> world" where
  "runTechnicalAnalysis_try b = (\<lambda>(s, w).
     case axios_post (research b) (API_BASE_URL @ ''/research'')
            (Research ''Find technical trading opportunities'' 30)
            [(''Authorization'', ''Bearer '' @ API_TOKEN),
             (''Content-Type'', ''application/json'')] w of
       (Rejected message, w1) \<Rightarrow> (Some message, s, w1)
     | (Resolved triggered, w1) \<Rightarrow>
         (case axios_get (list_opportunities b) (API_BASE_URL @ ''/opportunities'')
                 [(''Authorization'', ''Bearer '' @ API_TOKEN)] w1 of
            (Rejected message, w2) \<Rightarrow> (Some message, s, w2)
          | (Resolved response, w2) \<Rightarrow>
              (None, s\<lparr>opportunities := data_or_empty response,
                       lastAnalysisTime := Some (clock w2)\<rparr>, w2)))"

definition runTechnicalAnalysis ::
    "backend \<Rightarrow> Opportunities \<times> world \<Rightarrow> Opportunities \<times> world" where
  "runTechnicalAnalysis b = (\<lambda>(s, w).
     let s0 = s\<lparr>loading := True, error := None, isAgentRunning := True\<rparr>;
         (thrown, s1, w1) = runTechnicalAnalysis_try b (s0, w);
         s2 = (case thrown of
                 None \<Rightarrow> s1
               | Some message \<Rightarrow>
                   s1\<lparr>error := Some (''Failed to fetch trading opportunities: '' @ message)\<rparr>)
     in (s2\<lparr>loading := False, isAgentRunning := False\<rparr>, w1))"

definition openModal :: "opportunity \<Rightarrow> Opportunities \<Rightarrow> Opportunities" where
  "openModal opp s = s\<lparr>selectedOpportunity := Some opp, isModalOpen := True\<rparr>"

definition closeModal :: "Opportunities \<Rightarrow> Opportunities" where
  "closeModal s = s\<lparr>isModalOpen := False, selectedOpportunity := None\<rparr>"

section \<open>The single-page dashboard (App component)\<close>

record message =
  role :: string
  content :: string

record App =
  opportunities :: "opportunity list"
  loading :: bool
  chatMessages :: "message list"
  chatInput :: string
  error :: "string option"
  isAgentRunning :: bool
  lastAnalysisTime :: "string option"
  selectedTimeframe :: string
  marketStatus :: string
  selectedOpportunity :: "opportunity option"
  isModalOpen :: bool

text \<open>
  The dashboard has its own copies of the three operations. Its \<^verbatim>\<open>checkAgentHealth\<close> has no
  status field to set; \<^verbatim>\<open>loadExistingOpportunities\<close> and \<^verbatim>\<open>runTechnicalAnalysis\<close> are the same
  text as on the Opportunities page.
\<close>

definition App_checkAgentHealth :: "backend \<Rightarrow> App \<times> world \<Rightarrow> App \<times> world" where
  "App_checkAgentHealth b = (\<lambda>(s, w).
     case axios_get (health b) (API_BASE_URL @ ''/health'') [] w of
       (Resolved response, w1) \<Rightarrow> (s, console_log ''Agent health:'' w1)
     | (Rejected message, w1) \<Rightarrow>
         (s\<lparr>App.error := Some ''Unable to connect to Technical Researcher Agent''\<rparr>, w1))"

definition App_loadExistingOpportunities :: "backend \<Rightarrow> App \<times> world \<Rightarrow> App \<times> world" where
  "App_loadExistingOpportunities b = (\<lambda>(s, w).
     case axios_get (list_opportunities b) (API_BASE_URL @ ''/opportunities'')
            [(''Authorization'', ''Bearer '' @ API_TOKEN)] w of
       (Resolved response, w1) \<Rightarrow> (s\<lparr>App.opportunities := data_or_empty response\<rparr>, w1)
     | (Rejected message, w1) \<Rightarrow>
         (s, console_log (''Failed to load existing opportunities: '' @ message) w1))"

definition App_runTechnicalAnalysis_try ::
    "backend \<Rightarrow> App \<times> world \<Rightarrow> string option \<times> App \<times> world" where
  "App_runTechnicalAnalysis_try b = (\<lambda>(s, w).
     case axios_post (research b) (API_BASE_URL @ ''/research'')
            (Research ''Find technical trading opportunities'' 30)
            [(''Authorization'', ''Bearer '' @ API_TOKEN),
             (''Content-Type'', ''application/json'')] w of
       (Rejected message, w1) \<Rightarrow> (Some message, s, w1)
     | (Resolved triggered, w1) \<Rightarrow>
         (case axios_get (list_opportunities b) (API_BASE_URL @ ''/opportunities'')
                 [(''Authorization'', ''Bearer '' @ API_TOKEN)] w1 of
            (Rejected message, w2) \<Rightarrow> (Some message, s, w2)
          | (Resolved response, w2) \<Rightarrow>
              (None, s\<lparr>App.opportunities := data_or_empty response,
                       App.lastAnalysisTime := Some (clock w2)\<rparr>, w2)))"

definition App_runTechnicalAnalysis :: "backend \<Rightarrow> App \<times> world \<Rightarrow> App \<times> world" where
  "App_runTechnicalAnalysis b = (\<lambda>(s, w).
     let s0 = s\<lparr>App.loading := True, App.error := None, App.isAgentRunning := True\<rparr>;
         (thrown, s1, w1) = App_runTechnicalAnalysis_try b (s0, w);
         s2 = (case thrown of
                 None \<Rightarrow> s1
               | Some message \<Rightarrow>
                   s1\<lparr>App.error :=
                        Some (''Failed to fetch trading opportunities: '' @ message)\<rparr>)
     in (s2\<lparr>App.loading := False, App.isAgentRunning := False\<rparr>, w1))"

text \<open>
  \<^verbatim>\<open>
  const sendChatMessage = async () => {
    if (!chatInput.trim()) return
    const userMessage = { role: 'user', content: chatInput }
    setChatMessages(prev => [...prev, userMessage])
    setChatInput('')
    try {
      const response = await axios.post(`${API_BASE_URL}/chat`, {message: chatInput}, {headers})
      const agentMessage = { role: 'assistant', content: response.data.response }
      setChatMessages(prev => [...prev, agentMessage])
    } catch (err) {
      const errorMessage = { role: 'assistant',
                             content: 'Sorry, I encountered an error: ' + err.message }
      setChatMessages(prev => [...prev, errorMessage])
    }
  }
  \<close>
  The request carries the \<^verbatim>\<open>chatInput\<close> the function was called with, not the cleared one.
  The endpoint's answer is the \<^verbatim>\<open>response\<close> field of the body.
\<close>

definition sendChatMessage :: "backend \<Rightarrow> App \<times> world \<Rightarrow> App \<times> world" where
  "sendChatMessage b = (\<lambda>(s, w).
     if trim (chatInput s) = '''' then (s, w)
     else
       let userMessage = \<lparr>role = ''user'', content = chatInput s\<rparr>;
           s1 = s\<lparr>chatMessages := chatMessages s @ [userMessage], chatInput := ''''\<rparr>
       in case axios_post (chat b) (API_BASE_URL @ ''/chat'') (Chat (chatInput s))
                 [(''Authorization'', ''Bearer '' @ API_TOKEN),
                  (''Content-Type'', ''application/json'')] w of
            (Resolved response, w1) \<Rightarrow>
              (s1\<lparr>chatMessages :=
                    chatMessages s1 @ [\<lparr>role = ''assistant'', content = response\<rparr>]\<rparr>, w1)
          | (Rejected message, w1) \<Rightarrow>
              (s1\<lparr>chatMessages := chatMessages s1 @
                    [\<lparr>role = ''assistant'',
                      content = ''Sorry, I encountered an error: '' @ message\<rparr>]\<rparr>, w1))"

text \<open>
  \<^verbatim>\<open>
  const stats = {
    totalOpportunities: opportunities.length,
    avgConfidence: opportunities.length > 0
      ? Math.round(opportunities.reduce((sum, opp) => sum + (opp.confidence_score * 100), 0)
                   / opportunities.length)
      : 0,
    highConfidence: opportunities.filter(opp => (opp.confidence_score * 100) >= 70).length,
    totalValue: opportunities.reduce((sum, opp) => sum + (parseFloat(opp.price) || 0), 0)
  }
  \<close>
  The products, the sums and the quotient of \<^verbatim>\<open>avgConfidence\<close> are Number operations, on
  the double nearest to each score; an array has fewer than \<open>2 ^ 32\<close> elements, so its
  \<^verbatim>\<open>length\<close> is a Number as it stands. The object is called \<open>App_stats\<close> here, since the
  Home page has a state field \<^verbatim>\<open>stats\<close> too.
\<close>

record App_stats_obj =
  totalOpportunities :: nat
  avgConfidence :: number
  highConfidence :: nat
  totalValue :: rat

definition App_stats :: "opportunity list \<Rightarrow> App_stats_obj" where
  "App_stats opps =
     \<lparr>totalOpportunities = length opps,
      avgConfidence =
        (if length opps > 0
         then Math_round
                (num_div
                   (foldl (\<lambda>sum opp. num_add sum (num_mul (fl (confidence_score opp)) (Finite 100)))
                      (Finite 0) opps)
                   (Finite (of_nat (length opps))))
         else Finite 0),
      highConfidence = length (filter (\<lambda>opp. confidence_score opp * 100 \<ge> 70) opps),
      totalValue =
        foldl (\<lambda>sum opp. sum + (case price opp of Some p \<Rightarrow> p | None \<Rightarrow> 0)) 0 opps\<rparr>"

section \<open>The Home page (Home.jsx)\<close>

record Home_stats =
  totalOpportunities :: nat
  highConfidence :: nat
  bullishSetups :: nat
  bearishSetups :: nat

record Home =
  opportunities :: "opportunity list"
  agentStatus :: string
  stats :: Home_stats

text \<open>
  \<^verbatim>\<open>
  const loadDashboardData = async () => {
    try {
      const healthResponse = await axios.get(`${API_BASE_URL}/health`)
      setAgentStatus('connected')
      const opportunitiesResponse = await axios.get(`${API_BASE_URL}/opportunities`, {headers})
      const opps = opportunitiesResponse.data || []
      setOpportunities(opps)
      setStats({
        totalOpportunities: opps.length,
        highConfidence: opps.filter(opp => opp.confidence_score > 0.7).length,
        bullishSetups: opps.filter(opp => ...includes('bullish') || ...includes('momentum')).length,
        bearishSetups: opps.filter(opp => ...includes('short') || ...includes('bear')).length
      })
    } catch (err) {
      setAgentStatus('disconnected')
      console.error('Failed to load dashboard data:', err)
    }
  }
  \<close>
  \<open>calculate_stats\<close> is the object passed to \<^verbatim>\<open>setStats\<close>. The console line is modelled
  with the error's message.
\<close>

definition calculate_stats :: "opportunity list \<Rightarrow> Home_stats" where
  "calculate_stats opps =
     \<lparr>totalOpportunities = length opps,
      highConfidence = length (filter (\<lambda>opp. confidence_score opp > 7 / 10) opps),
      bullishSetups = length (filter (\<lambda>opp.
          includes' (toLowerCase (setup_type opp)) ''bullish'' \<or>
          includes' (toLowerCase (setup_type opp)) ''momentum'') opps),
      bearishSetups = length (filter (\<lambda>opp.
          includes' (toLowerCase (setup_type opp)) ''short'' \<or>
          includes' (toLowerCase (setup_type opp)) ''bear'') opps)\<rparr>"

definition loadDashboardData_try ::
    "backend \<Rightarrow> Home \<times> world \<Rightarrow> string option \<times> Home \<times> world" where
  "loadDashboardData_try b = (\<lambda>(s, w).
     case axios_get (health b) (API_BASE_URL @ ''/health'') [] w of
       (Rejected message, w1) \<Rightarrow> (Some message, s, w1)
     | (Resolved healthResponse, w1) \<Rightarrow>
         (let s1 = s\<lparr>Home.agentStatus := ''connected''\<rparr>
          in case axios_get (list_opportunities b) (API_BASE_URL @ ''/opportunities'')
                    [(''Authorization'', ''Bearer '' @ API_TOKEN)] w1 of
               (Rejected message, w2) \<Rightarrow> (Some message, s1, w2)
             | (Resolved opportunitiesResponse, w2) \<Rightarrow>
                 (let opps = data_or_empty opportunitiesResponse
                  in (None, s1\<lparr>Home.opportunities := opps,
                               Home.stats := calculate_stats opps\<rparr>, w2))))"

definition loadDashboardData :: "backend \<Rightarrow> Home \<times> world \<Rightarrow> Home \<times> world" where
  "loadDashboardData b = (\<lambda>(s, w).
     let (thrown, s1, w1) = loadDashboardData_try b (s, w)
     in case thrown of
          None \<Rightarrow> (s1, w1)
        | Some message \<Rightarrow>
            (s1\<lparr>Home.agentStatus := ''disconnected''\<rparr>,
             console_log (''Failed to load dashboard data: '' @ message) w1))"

section \<open>Initial states and sample backends\<close>

text \<open>The initial states are the arguments of the \<^verbatim>\<open>useState\<close> calls of each component.\<close>

definition Opportunities_initial :: Opportunities where
  "Opportunities_initial =
     \<lparr>Opportunities.opportunities = [], loading = False, error = None,
      isAgentRunning = False, agentStatus = ''checking'', selectedOpportunity = None,
      isModalOpen = False, lastAnalysisTime = None, searchTerm = '''', filterType = ''all''\<rparr>"

definition App_initial :: App where
  "App_initial =
     \<lparr>App.opportunities = [], loading = False, chatMessages = [], chatInput = '''',
      error = None, isAgentRunning = False, lastAnalysisTime = None,
      selectedTimeframe = ''1D'', marketStatus = ''OPEN'', selectedOpportunity = None,
      isModalOpen = False\<rparr>"

definition Home_initial :: Home where
  "Home_initial =
     \<lparr>Home.opportunities = [], agentStatus = ''checking'',
      stats = \<lparr>totalOpportunities = 0, highConfidence = 0,
                bullishSetups = 0, bearishSetups = 0\<rparr>\<rparr>"

definition world_initial :: world where
  "world_initial = \<lparr>requests = [], console = [], clock = ''9:30:00 AM''\<rparr>"

text \<open>
  The control that starts a run is rendered with
  \<^verbatim>\<open>disabled={loading || isAgentRunning}\<close> on both pages.
\<close>

definition run_disabled :: "Opportunities \<Rightarrow> bool" where
  "run_disabled s = (Opportunities.loading s \<or> Opportunities.isAgentRunning s)"

definition App_run_disabled :: "App \<Rightarrow> bool" where
  "App_run_disabled s = (App.loading s \<or> App.isAgentRunning s)"

text \<open>The two rows of the scenario store used in the worked examples below.\<close>

definition row_AAPL :: opportunity where
  "row_AAPL = \<lparr>id' = Some 1, ticker = ''AAPL'', setup_type = ''Bullish Momentum'',
     price = None, confidence_score = 85 / 100, timeframe = ''1D''\<rparr>"

definition row_TSLA :: opportunity where
  "row_TSLA = \<lparr>id' = Some 2, ticker = ''TSLA'', setup_type = ''Short Squeeze'',
     price = None, confidence_score = 55 / 100, timeframe = ''1D''\<rparr>"

text \<open>
  A row the trigger might echo before it is persisted (no \<^verbatim>\<open>id\<close>), a row whose score is
  exactly \<^verbatim>\<open>0.7\<close>, a row whose score is \<^verbatim>\<open>0.6849999999999999\<close>, a backend that answers every request, one whose list endpoint answers
  HTTP 500 while its health endpoint answers, and one that lists the single \<^verbatim>\<open>0.7\<close> row.
\<close>

definition row_unpersisted :: opportunity where
  "row_unpersisted = \<lparr>id' = None, ticker = ''NVDA'', setup_type = ''Breakout'',
     price = Some 120, confidence_score = 9 / 10, timeframe = ''1D''\<rparr>"

definition row_070 :: opportunity where
  "row_070 = \<lparr>id' = Some 3, ticker = ''MSFT'', setup_type = ''Breakout'',
     price = Some 400, confidence_score = 7 / 10, timeframe = ''1D''\<rparr>"

definition row_0685 :: opportunity where
  "row_0685 = \<lparr>id' = Some 4, ticker = ''AMZN'', setup_type = ''Mean Reversion'',
     price = Some 180, confidence_score = 6849999999999999 / 10000000000000000,
     timeframe = ''1D''\<rparr>"

definition backend_ok :: backend where
  "backend_ok =
     \<lparr>health = (\<lambda>rs. Resolved ()),
      list_opportunities = (\<lambda>rs. Resolved (Some [row_AAPL, row_TSLA])),
      research = (\<lambda>rs. Resolved (Some [row_unpersisted])),
      chat = (\<lambda>rs. Resolved ''Hello'')\<rparr>"

definition backend_list_500 :: backend where
  "backend_list_500 =
     \<lparr>health = (\<lambda>rs. Resolved ()),
      list_opportunities = (\<lambda>rs. Rejected ''Request failed with status code 500''),
      research = (\<lambda>rs. Resolved (Some [row_unpersisted])),
      chat = (\<lambda>rs. Resolved ''Hello'')\<rparr>"

definition backend_070 :: backend where
  "backend_070 =
     \<lparr>health = (\<lambda>rs. Resolved ()),
      list_opportunities = (\<lambda>rs. Resolved (Some [row_070])),
      research = (\<lambda>rs. Resolved None),
      chat = (\<lambda>rs. Resolved ''Hello'')\<rparr>"

section \<open>Properties of the filter\<close>

lemma scenario_bullish:
  "filteredOpportunities [row_AAPL, row_TSLA] '''' ''bullish'' = [row_AAPL]"
  by (simp add: filteredOpportunities_def matchesSearch_def matchesFilter_def
      row_AAPL_def row_TSLA_def toLowerCase_def toLowerCase_char_def)

lemma scenario_search:
  "filteredOpportunities [row_AAPL, row_TSLA] ''tsla'' ''all'' = [row_TSLA]"
  by (simp add: filteredOpportunities_def matchesSearch_def matchesFilter_def
      row_AAPL_def row_TSLA_def toLowerCase_def toLowerCase_char_def)

lemma scenario_high_confidence:
  "filteredOpportunities [row_AAPL, row_TSLA] '''' ''high-confidence'' = [row_AAPL]"
  by (simp add: filteredOpportunities_def matchesSearch_def matchesFilter_def
      row_AAPL_def row_TSLA_def)

lemma count_list_filter_le: "count_list (filter P xs) x \<le> count_list xs x"
  by (induction xs) auto

lemma matchesFilter_high_confidence:
  "matchesFilter ''high-confidence'' opp = (confidence_score opp \<ge> 7 / 10)"
  by (simp add: matchesFilter_def)

text \<open>
  Claim C8. With the empty search term and the filter type \<^verbatim>\<open>all\<close> the filtered view is the
  store itself, for every store.
\<close>

theorem filteredOpportunities_identity:
  "filteredOpportunities store '''' ''all'' = store"
  by (simp add: filteredOpportunities_def matchesSearch_def matchesFilter_def)

text \<open>
  Claim C6. For every store, search term and filter type the filtered view is a
  subsequence of the store: its items are items of the store, none occurs more often than
  in the store, and the order of the store is kept.
\<close>

theorem filteredOpportunities_subseq:
  "subseq (filteredOpportunities store search kind) store \<and>
   set (filteredOpportunities store search kind) \<subseteq> set store \<and>
   (\<forall>opp. count_list (filteredOpportunities store search kind) opp
            \<le> count_list store opp)"
  by (simp add: filteredOpportunities_def count_list_filter_le)

text \<open>
  The high-confidence filter is combined with the search by \<^verbatim>\<open>&&\<close>. With the search term
  \<^verbatim>\<open>tsla\<close> the AAPL row, whose score is 0.85, is excluded from the view: an excluded item
  need not have a score below 0.7.
\<close>

theorem high_confidence_excluded_counterexample:
  "row_AAPL \<in> set [row_AAPL, row_TSLA] \<and>
   row_AAPL \<notin> set (filteredOpportunities [row_AAPL, row_TSLA] ''tsla'' ''high-confidence'') \<and>
   \<not> confidence_score row_AAPL < 7 / 10"
  by (simp add: filteredOpportunities_def matchesSearch_def matchesFilter_def
      row_AAPL_def row_TSLA_def toLowerCase_def toLowerCase_char_def)

text \<open>
  Claim C3, as the code has it. With the filter type \<^verbatim>\<open>high-confidence\<close> every item of the
  view has a score of at least 0.7, and every store item left out either has a score below
  0.7 or does not match the search term; with the empty search term every store item left
  out has a score below 0.7.
\<close>

theorem high_confidence_filter:
  "(\<forall>opp \<in> set (filteredOpportunities store search ''high-confidence'').
      confidence_score opp \<ge> 7 / 10) \<and>
   (\<forall>opp \<in> set store.
      opp \<notin> set (filteredOpportunities store search ''high-confidence'') \<longrightarrow>
      confidence_score opp < 7 / 10 \<or> \<not> matchesSearch search opp) \<and>
   (\<forall>opp \<in> set store.
      opp \<notin> set (filteredOpportunities store '''' ''high-confidence'') \<longrightarrow>
      confidence_score opp < 7 / 10)"
  by (auto simp add: filteredOpportunities_def matchesFilter_high_confidence matchesSearch_def)

theorem high_confidence_filter_witness:
  "row_AAPL \<in> set (filteredOpportunities [row_AAPL, row_TSLA] '''' ''high-confidence'') \<and>
   confidence_score row_AAPL \<ge> 7 / 10 \<and>
   row_TSLA \<in> set [row_AAPL, row_TSLA] \<and>
   row_TSLA \<notin> set (filteredOpportunities [row_AAPL, row_TSLA] '''' ''high-confidence'') \<and>
   confidence_score row_TSLA < 7 / 10"
  using high_confidence_filter [of "[row_AAPL, row_TSLA]" "''''"]
  by (simp add: filteredOpportunities_def matchesSearch_def matchesFilter_def
      row_AAPL_def row_TSLA_def)

section \<open>Properties of the chat box\<close>

lemma trim_blank:
  assumes "\<forall>c \<in> set s. isWhiteSpace c"
  shows "trim s = ''''"
proof -
  from assms have blank: "dropWhile isWhiteSpace s = []" by simp
  show ?thesis unfolding trim_def blank by simp
qed

text \<open>An input with a visible character is sent: the guard is not always taken.\<close>

lemma sendChatMessage_sends:
  "sendChatMessage backend_ok (App_initial\<lparr>chatInput := '' hi ''\<rparr>, world_initial) =
     (App_initial\<lparr>chatMessages := [\<lparr>role = ''user'', content = '' hi ''\<rparr>,
                                    \<lparr>role = ''assistant'', content = ''Hello''\<rparr>],
                   chatInput := ''''\<rparr>,
      world_initial\<lparr>requests :=
        [\<lparr>req_method = POST, url = ''http://localhost:8001/chat'',
          headers = [(''Authorization'', ''Bearer dev-key-12345''),
                     (''Content-Type'', ''application/json'')],
          data = Chat '' hi ''\<rparr>]\<rparr>)"
  by (simp add: sendChatMessage_def trim_def isWhiteSpace_def App_initial_def world_initial_def
      backend_ok_def axios_post_def API_BASE_URL_def API_TOKEN_def)

text \<open>
  Claim C10. If the chat input is empty or made of white space only, \<^verbatim>\<open>sendChatMessage\<close>
  does nothing: state and world come back as they were, so no request is issued and the
  message list and the input field are unchanged.
\<close>

theorem sendChatMessage_blank_noop:
  assumes "\<forall>c \<in> set (chatInput s). isWhiteSpace c"
  shows "sendChatMessage b (s, w) = (s, w) \<and>
         requests (snd (sendChatMessage b (s, w))) = requests w \<and>
         chatMessages (fst (sendChatMessage b (s, w))) = chatMessages s \<and>
         chatInput (fst (sendChatMessage b (s, w))) = chatInput s"
  using assms by (simp add: sendChatMessage_def trim_blank)

theorem sendChatMessage_blank_noop_witness:
  "isWhiteSpace (CHR '' '') \<and> isWhiteSpace (CHR 0x09) \<and> isWhiteSpace (CHR 0x0A) \<and>
   sendChatMessage backend_ok
       (App_initial\<lparr>chatInput := [CHR '' '', CHR 0x09, CHR 0x0A]\<rparr>, world_initial) =
     (App_initial\<lparr>chatInput := [CHR '' '', CHR 0x09, CHR 0x0A]\<rparr>, world_initial) \<and>
   requests (snd (sendChatMessage backend_ok
       (App_initial\<lparr>chatInput := [CHR '' '', CHR 0x09, CHR 0x0A]\<rparr>, world_initial))) = []"
  using sendChatMessage_blank_noop
    [of "App_initial\<lparr>chatInput := [CHR '' '', CHR 0x09, CHR 0x0A]\<rparr>" backend_ok world_initial]
  by (simp add: isWhiteSpace_def world_initial_def)



section \<open>Properties of the fetch lifecycle and of the statistics\<close>

subsection \<open>Auxiliary facts\<close>

lemma includes'_sublist: "includes' s sub = sublist sub s"
  by (induction s) (simp_all add: sublist_Cons_right)

lemma includes'_append: "includes' (pre @ sub @ post) sub"
  by (simp add: includes'_sublist sublist_def) blast

lemma load_message_mentions:
  "includes' (''Failed to load existing opportunities: '' @ m) ''opportunities''"
  using includes'_append [of "''Failed to load existing ''" "''opportunities''" "'': '' @ m"]
  by simp

lemma fetch_message_mentions:
  "includes' (''Failed to fetch trading opportunities: '' @ m) ''opportunities''"
  using includes'_append [of "''Failed to fetch trading ''" "''opportunities''" "'': '' @ m"]
  by simp

lemma App_stats_highConfidence:
  "App_stats_obj.highConfidence (App_stats opps) =
     length (filter (\<lambda>opp. confidence_score opp \<ge> 7 / 10) opps)"
proof -
  have "(70 \<le> c * 100) = (7 / 10 \<le> c)" for c :: rat
    by auto
  then have "filter (\<lambda>opp. confidence_score opp * 100 \<ge> 70) opps =
             filter (\<lambda>opp. confidence_score opp \<ge> 7 / 10) opps"
    by presburger
  then show ?thesis
    unfolding App_stats_def by simp
qed

subsection \<open>Rounding to the nearest double\<close>

text \<open>
  The exponent that \<open>ilog2\<close> computes is the right one, rounding to the nearest integer errs
  by at most one half, and rounding to the nearest double keeps a non-negative number
  non-negative, keeps it below any integer bound under \<open>2 ^ 53\<close> that it was below, and
  errs by at most half the spacing of the doubles.
\<close>

lemma floor_bounds: "of_int \<lfloor>y\<rfloor> \<le> y \<and> y < of_int \<lfloor>y\<rfloor> + 1" for y :: rat
  by linarith

lemma round_half_even_error: "\<bar>of_int (round_half_even y) - y\<bar> \<le> 1 / 2"
  using floor_bounds [of y] by (auto simp add: round_half_even_def Let_def)

lemma round_half_even_nonneg:
  assumes "0 \<le> y"
  shows "0 \<le> round_half_even y"
proof -
  from assms have "0 \<le> \<lfloor>y\<rfloor>" by simp
  then show ?thesis by (auto simp add: round_half_even_def Let_def)
qed

lemma round_half_even_le:
  assumes "y \<le> of_int M"
  shows "round_half_even y \<le> M"
proof (cases "y = of_int M")
  case True
  then show ?thesis by (simp add: round_half_even_def)
next
  case False
  with assms have "y < of_int M" by simp
  then have "\<lfloor>y\<rfloor> < M" by (simp add: floor_less_iff)
  then show ?thesis by (auto simp add: round_half_even_def Let_def)
qed

lemma ilog2_le:
  assumes "0 < x"
  shows "2 powi (ilog2 x) \<le> x"
proof -
  obtain p q where pq: "quotient_of x = (p, q)" by (cases "quotient_of x")
  then have q: "0 < q" and x: "x = of_int p / of_int q"
    using quotient_of_denom_pos quotient_of_div by auto
  with assms have p: "0 < p"
    by (simp add: zero_less_divide_iff)
  let ?e = "bitlen p - bitlen q"
  show ?thesis
  proof (cases "2 powi ?e \<le> x")
    case True
    then show ?thesis by (simp add: ilog2_def pq)
  next
    case False
    have bp: "(2::int) ^ nat (bitlen p - 1) \<le> p" using bitlen_bounds [OF p] by simp
    have bq: "q < (2::int) ^ nat (bitlen q)" using bitlen_bounds [OF q] by simp
    have p1: "1 \<le> bitlen p" using p bitlen_eq_zero_iff [of p] bitlen_nonneg [of p] by linarith
    have "(2::rat) powi (bitlen p - 1) = of_int ((2::int) ^ nat (bitlen p - 1))"
      using p1 by (simp add: power_int_def)
    also have "\<dots> \<le> of_int p" using bp by (simp only: of_int_le_iff)
    finally have lo: "(2::rat) powi (bitlen p - 1) \<le> of_int p" .
    have "of_int q < (of_int ((2::int) ^ nat (bitlen q)) :: rat)"
      using bq by (simp only: of_int_less_iff)
    also have "\<dots> = 2 powi (bitlen q)"
      using bitlen_nonneg [of q] by (simp add: power_int_def)
    finally have hi: "(of_int q :: rat) < 2 powi (bitlen q)" .
    have "(2::rat) powi (?e - 1) = 2 powi (bitlen p - 1) / 2 powi (bitlen q)"
      by (simp add: power_int_diff)
    also have "\<dots> \<le> of_int p / 2 powi (bitlen q)"
      using lo by (simp add: divide_right_mono)
    also have "\<dots> \<le> of_int p / of_int q"
      using hi p q by (simp add: frac_le)
    also have "\<dots> = x" using x by simp
    finally have "(2::rat) powi (?e - 1) \<le> x" .
    with False show ?thesis by (simp add: ilog2_def pq)
  qed
qed


lemma ilog2_less:
  assumes "0 < x"
  shows "x < 2 powi (ilog2 x + 1)"
proof -
  obtain p q where pq: "quotient_of x = (p, q)" by (cases "quotient_of x")
  then have q: "0 < q" and x: "x = of_int p / of_int q"
    using quotient_of_denom_pos quotient_of_div by auto
  with assms have p: "0 < p"
    by (simp add: zero_less_divide_iff)
  let ?e = "bitlen p - bitlen q"
  show ?thesis
  proof (cases "2 powi ?e \<le> x")
    case False
    then show ?thesis by (simp add: ilog2_def pq)
  next
    case True
    have bp: "p < (2::int) ^ nat (bitlen p)" using bitlen_bounds [OF p] by simp
    have bq: "(2::int) ^ nat (bitlen q - 1) \<le> q" using bitlen_bounds [OF q] by simp
    have q1: "1 \<le> bitlen q" using q bitlen_eq_zero_iff [of q] bitlen_nonneg [of q] by linarith
    have "(of_int p :: rat) < of_int ((2::int) ^ nat (bitlen p))"
      using bp by (simp only: of_int_less_iff)
    also have "\<dots> = 2 powi (bitlen p)"
      using bitlen_nonneg [of p] by (simp add: power_int_def)
    finally have hi: "(of_int p :: rat) < 2 powi (bitlen p)" .
    have "(2::rat) powi (bitlen q - 1) = of_int ((2::int) ^ nat (bitlen q - 1))"
      using q1 by (simp add: power_int_def)
    also have "\<dots> \<le> of_int q" using bq by (simp only: of_int_le_iff)
    finally have lo: "(2::rat) powi (bitlen q - 1) \<le> of_int q" .
    have "x = of_int p / of_int q" by (fact x)
    also have "\<dots> < 2 powi (bitlen p) / of_int q"
      using hi q by (simp add: divide_strict_right_mono)
    also have "\<dots> \<le> 2 powi (bitlen p) / 2 powi (bitlen q - 1)"
      using lo by (simp add: frac_le)
    also have "\<dots> = 2 powi (?e + 1)"
      by (simp add: power_int_diff [symmetric] algebra_simps)
    finally show ?thesis using True by (simp add: ilog2_def pq)
  qed
qed

lemma pow2_le_D: "(2::rat) powi a \<le> 2 powi b \<Longrightarrow> a \<le> b"
  using power_int_strict_increasing [of b a "2::rat"] by (cases "a \<le> b") auto

lemma pow2_less_D: "(2::rat) powi a < 2 powi b \<Longrightarrow> a < b"
  using power_int_increasing [of b a "2::rat"] by (cases "a < b") auto

lemma of_int_less_pow53:
  assumes "N < 2 ^ 53"
  shows "(of_int N :: rat) < 2 powi 53"
proof -
  from assms have "(of_int N :: rat) < of_int (2 ^ 53)" by (simp only: of_int_less_iff)
  also have "(of_int (2 ^ 53) :: rat) = 2 powi 53" by simp
  finally show ?thesis .
qed

lemma binary64_round_nonneg:
  assumes "0 \<le> x"
  shows "0 \<le> binary64_round x"
proof (cases "x = 0")
  case True
  then show ?thesis by (simp add: binary64_round_def)
next
  case False
  with assms have "0 < x" by simp
  then show ?thesis
    by (simp add: binary64_round_def Let_def round_half_even_nonneg)
qed

lemma binary64_round_le_int:
  assumes "0 \<le> x" and "x \<le> of_int N" and "N < 2 ^ 53"
  shows "binary64_round x \<le> of_int N"
proof (cases "x = 0")
  case True
  with assms show ?thesis by (simp add: binary64_round_def)
next
  case False
  with assms have pos: "0 < x" by simp
  define e where "e = max (ilog2 x) (- 1022)"
  define q :: rat where "q = 2 powi (e - 52)"
  have qpos: "0 < q" by (simp add: q_def)
  have "(2::rat) powi (ilog2 x) \<le> x" by (rule ilog2_le [OF pos])
  also have "x \<le> of_int N" by fact
  also have "(of_int N :: rat) < 2 powi 53"
    by (rule of_int_less_pow53 [OF assms(3)])
  finally have "ilog2 x < 53"
    by (rule pow2_less_D)
  then have e52: "e \<le> 52" by (simp add: e_def)
  then have "1 / q = 2 ^ nat (52 - e)"
    by (simp add: q_def power_int_def power_inverse [symmetric] field_simps)
  moreover have "of_int N / q = of_int N * (1 / q)" by simp
  ultimately have "of_int N / q = of_int (N * 2 ^ nat (52 - e))"
    by (simp only: of_int_mult of_int_power of_int_numeral)
  moreover have "x / q \<le> of_int N / q"
    using assms(2) qpos by (simp add: divide_right_mono)
  ultimately have "round_half_even (x / q) \<le> N * 2 ^ nat (52 - e)"
    by (simp add: round_half_even_le)
  then have "of_int (round_half_even (x / q)) \<le> (of_int (N * 2 ^ nat (52 - e)) :: rat)"
    by (simp only: of_int_le_iff)
  also have "\<dots> = of_int N / q"
    using \<open>of_int N / q = of_int (N * 2 ^ nat (52 - e))\<close> by simp
  finally have "of_int (round_half_even (x / q)) * q \<le> of_int N"
    using qpos by (simp add: pos_le_divide_eq)
  with pos show ?thesis
    by (simp add: binary64_round_def Let_def e_def q_def)
qed

lemma binary64_round_error:
  assumes "0 \<le> x" and "x \<le> 2 powi b" and "- 1022 \<le> b"
  shows "\<bar>binary64_round x - x\<bar> \<le> 2 powi (b - 53)"
proof (cases "x = 0")
  case True
  then show ?thesis by (simp add: binary64_round_def)
next
  case False
  with assms have pos: "0 < x" by simp
  define e where "e = max (ilog2 x) (- 1022)"
  define q :: rat where "q = 2 powi (e - 52)"
  have qpos: "0 < q" by (simp add: q_def)
  have "(2::rat) powi (ilog2 x) \<le> x" by (rule ilog2_le [OF pos])
  also have "x \<le> 2 powi b" by fact
  finally have "ilog2 x \<le> b" by (rule pow2_le_D)
  with assms(3) have eb: "e \<le> b" by (simp add: e_def)
  have "\<bar>of_int (round_half_even (x / q)) - x / q\<bar> \<le> 1 / 2"
    by (rule round_half_even_error)
  then have "\<bar>of_int (round_half_even (x / q)) - x / q\<bar> * q \<le> 1 / 2 * q"
    using qpos by (simp add: mult_right_mono)
  moreover have "\<bar>of_int (round_half_even (x / q)) - x / q\<bar> * q =
      \<bar>of_int (round_half_even (x / q)) * q - x\<bar>"
  proof -
    have "of_int (round_half_even (x / q)) * q - x =
        (of_int (round_half_even (x / q)) - x / q) * q"
      using qpos by (simp add: field_simps)
    then show ?thesis
      using qpos by (simp add: abs_mult)
  qed
  moreover have "1 / 2 * q = 2 powi (e - 53)"
    by (simp add: q_def power_int_diff)
  ultimately have "\<bar>of_int (round_half_even (x / q)) * q - x\<bar> \<le> 2 powi (e - 53)"
    by simp
  also have "(2::rat) powi (e - 53) \<le> 2 powi (b - 53)"
    using eb by (intro power_int_increasing) simp_all
  finally show ?thesis using pos
    by (simp add: binary64_round_def Let_def e_def q_def)
qed

lemma fl_Finite:
  assumes "0 \<le> x" and "x \<le> of_int N" and "N < 2 ^ 53"
  shows "fl x = Finite (binary64_round x)"
proof -
  have "binary64_round x \<le> of_int N" by (rule binary64_round_le_int [OF assms])
  also have "(of_int N :: rat) < 2 powi 53"
    by (rule of_int_less_pow53 [OF assms(3)])
  also have "(2::rat) powi 53 < 2 powi 1024"
    by (rule power_int_strict_increasing) simp_all
  also have "(2::rat) powi 1024 = 2 ^ 1024"
    by (simp only: power_int_def) simp
  finally have "binary64_round x < 2 ^ 1024" .
  moreover have "0 \<le> binary64_round x" by (rule binary64_round_nonneg [OF assms(1)])
  ultimately show ?thesis by (simp add: fl_def)
qed

text \<open>
  A number between two adjacent powers of two rounds to the multiple of the spacing that
  is less than half a spacing away: this evaluates \<open>fl\<close> at a given number from its
  exponent and its significand.
\<close>

lemma ilog2_eqI:
  assumes "2 powi e \<le> x" and "x < 2 powi (e + 1)"
  shows "ilog2 x = e"
proof -
  have "(0::rat) < 2 powi e" by simp
  with assms(1) have pos: "0 < x" by linarith
  have "(2::rat) powi (ilog2 x) < 2 powi (e + 1)"
    using ilog2_le [OF pos] assms(2) by (rule le_less_trans)
  then have upper: "ilog2 x < e + 1" by (rule pow2_less_D)
  have "(2::rat) powi e < 2 powi (ilog2 x + 1)"
    using assms(1) ilog2_less [OF pos] by (rule le_less_trans)
  then have lower: "e < ilog2 x + 1" by (rule pow2_less_D)
  from upper lower show ?thesis by simp
qed

lemma round_half_even_eqI:
  assumes "\<bar>of_int m - y\<bar> < 1 / 2"
  shows "round_half_even y = m"
proof -
  have "\<bar>of_int (round_half_even y) - y\<bar> \<le> 1 / 2" by (rule round_half_even_error)
  with assms have "\<bar>(of_int (round_half_even y) :: rat) - of_int m\<bar> < 1" by linarith
  then have "\<bar>(of_int (round_half_even y - m) :: rat)\<bar> < 1" by simp
  then have "\<bar>round_half_even y - m\<bar> < 1"
    by (simp only: of_int_abs [symmetric] of_int_less_1_iff)
  then show ?thesis by simp
qed

lemma fl_eqI:
  assumes "2 powi e \<le> x" and "x < 2 powi (e + 1)" and "- 1022 \<le> e" and "e \<le> 51"
    and "\<bar>of_int m - x / 2 powi (e - 52)\<bar> < 1 / 2"
  shows "fl x = Finite (of_int m * 2 powi (e - 52))"
proof -
  have "(0::rat) < 2 powi e" by simp
  with assms(1) have pos: "0 < x" by linarith
  have "x < 2 powi (e + 1)" by fact
  also have "(2::rat) powi (e + 1) \<le> 2 powi 52"
    using assms(4) by (intro power_int_increasing) simp_all
  also have "(2::rat) powi 52 = of_int (2 ^ 52)" by simp
  finally have "x \<le> of_int (2 ^ 52)" by simp
  with pos have "fl x = Finite (binary64_round x)"
    by (intro fl_Finite [where N = "2 ^ 52"]) simp_all
  moreover have "binary64_round x = of_int m * 2 powi (e - 52)"
  proof -
    have exponent: "max (ilog2 x) (- 1022) = e"
      using assms(3) ilog2_eqI [OF assms(1,2)] by simp
    show ?thesis
      using pos round_half_even_eqI [OF assms(5)]
      by (simp add: binary64_round_def Let_def exponent)
  qed
  ultimately show ?thesis by simp
qed

text \<open>
  The operations at the special values, rounding at a tie (to the even significand), at
  the overflow threshold and below the smallest positive double.
\<close>

lemma number_special_cases:
  "num_div (Finite 0) (Finite 0) = NaN"
  "num_div (Finite 1) (Finite 0) = PosInfinity"
  "num_div (Finite (- 1)) (Finite 0) = NegInfinity"
  "num_div (Finite 1) PosInfinity = Finite 0"
  "num_div PosInfinity NegInfinity = NaN"
  "num_add PosInfinity NegInfinity = NaN"
  "num_add (Finite 1) NegInfinity = NegInfinity"
  "num_mul (Finite 0) PosInfinity = NaN"
  "num_mul (Finite (- 2)) PosInfinity = NegInfinity"
  "Math_round NaN = NaN"
  "Math_round (Finite (5 / 2)) = Finite 3"
  "Math_round (Finite (- 5 / 2)) = Finite (- 2)"
  by (simp_all add: signed_infinity_def floor_eq_iff)

lemma binary64_round_minus: "binary64_round (- x) = - binary64_round x"
  by (simp add: binary64_round_def Let_def)

lemma binary64_round_eqI:
  assumes "2 powi e \<le> x" and "x < 2 powi (e + 1)"
    and "\<bar>of_int m - x / 2 powi (max e (- 1022) - 52)\<bar> < 1 / 2"
  shows "binary64_round x = of_int m * 2 powi (max e (- 1022) - 52)"
proof -
  have "(0::rat) < 2 powi e" by simp
  with assms(1) have pos: "0 < x" by linarith
  have exponent: "ilog2 x = e" by (rule ilog2_eqI [OF assms(1,2)])
  show ?thesis
    using pos round_half_even_eqI [OF assms(3)]
    by (simp add: binary64_round_def Let_def exponent)
qed

lemma round_half_even_tie:
  "round_half_even (of_int f + 1 / 2) = (if even f then f else f + 1)"
proof -
  have "\<lfloor>(of_int f :: rat) + 1 / 2\<rfloor> = f" by (simp add: floor_eq_iff)
  then show ?thesis by (simp add: round_half_even_def Let_def)
qed

lemma binary64_round_tieI:
  assumes "2 powi e \<le> x" and "x < 2 powi (e + 1)"
    and "x / 2 powi (max e (- 1022) - 52) = of_int f + 1 / 2"
  shows "binary64_round x =
           of_int (if even f then f else f + 1) * 2 powi (max e (- 1022) - 52)"
proof -
  have "(0::rat) < 2 powi e" by simp
  with assms(1) have pos: "0 < x" by linarith
  have exponent: "ilog2 x = e" by (rule ilog2_eqI [OF assms(1,2)])
  have "round_half_even (x / 2 powi (max e (- 1022) - 52)) = (if even f then f else f + 1)"
    unfolding assms(3) by (rule round_half_even_tie)
  then show ?thesis
    using pos by (simp add: binary64_round_def Let_def exponent)
qed

lemma fl_ties_to_even:
  "fl (9007199254740993 / 9007199254740992) = Finite 1"
  "fl (9007199254740995 / 9007199254740992) = Finite (2251799813685249 / 2251799813685248)"
proof -
  have r1: "binary64_round (9007199254740993 / 9007199254740992) = 1"
    using binary64_round_tieI [of 0 "9007199254740993 / 9007199254740992" 4503599627370496]
    by (simp add: power_int_def power_divide)
  show "fl (9007199254740993 / 9007199254740992) = Finite 1"
    unfolding fl_def r1 by simp
  have r2: "binary64_round (9007199254740995 / 9007199254740992) =
      2251799813685249 / 2251799813685248"
    using binary64_round_tieI [of 0 "9007199254740995 / 9007199254740992" 4503599627370497]
    by (simp add: power_int_def power_divide)
  show "fl (9007199254740995 / 9007199254740992) = Finite (2251799813685249 / 2251799813685248)"
    unfolding fl_def r2 by simp
qed

lemma fl_overflow: "fl (2 ^ 1024) = PosInfinity" "fl (- (2 ^ 1024)) = NegInfinity"
proof -
  have r: "binary64_round (2 ^ 1024) = 2 ^ 1024"
    using binary64_round_eqI [of 1024 "2 ^ 1024" "2 ^ 52"]
    by (simp add: power_int_def power_divide)
  show "fl (2 ^ 1024) = PosInfinity"
    unfolding fl_def r by simp
  show "fl (- (2 ^ 1024)) = NegInfinity"
    unfolding fl_def binary64_round_minus r by simp
qed

lemma fl_underflow: "fl (1 / 2 ^ 1074) = Finite (1 / 2 ^ 1074)" "fl (1 / 2 ^ 1076) = Finite 0"
proof -
  have r1: "binary64_round (1 / 2 ^ 1074) = 1 / 2 ^ 1074"
    using binary64_round_eqI [of "- 1074" "1 / 2 ^ 1074" 1]
    by (simp add: power_int_def power_divide)
  show "fl (1 / 2 ^ 1074) = Finite (1 / 2 ^ 1074)"
    unfolding fl_def r1 by simp
  have r2: "binary64_round (1 / 2 ^ 1076) = 0"
    using binary64_round_eqI [of "- 1076" "1 / 2 ^ 1076" 0]
    by (simp add: power_int_def power_divide)
  show "fl (1 / 2 ^ 1076) = Finite 0"
    unfolding fl_def r2 by simp
qed

subsection \<open>The average confidence in double arithmetic\<close>

text \<open>
  One step of the \<^verbatim>\<open>reduce\<close>, and the whole sum: for scores between 0 and 1 the running sum
  stays finite, between 0 and 100 times the number of rows added, and within
  \<open>1 / 8192\<close> per row of the exact sum.
\<close>

lemma sum_step:
  assumes c: "0 \<le> c" "c \<le> 1" and a: "0 \<le> a" "a \<le> 100 * of_nat k" and k: "k < 2 ^ 32"
  shows "\<exists>a'. num_add (Finite a) (num_mul (fl c) (Finite 100)) = Finite a' \<and>
           0 \<le> a' \<and> a' \<le> 100 * of_nat (Suc k) \<and> \<bar>a' - (a + c * 100)\<bar> \<le> 1 / 8192"
proof -
  define d where "d = binary64_round c"
  define t where "t = binary64_round (d * 100)"
  define a' where "a' = binary64_round (a + t)"
  have flc: "fl c = Finite d"
    unfolding d_def using fl_Finite [of c 1] c by simp
  have d0: "0 \<le> d" unfolding d_def by (rule binary64_round_nonneg [OF c(1)])
  have d1: "d \<le> 1" unfolding d_def using binary64_round_le_int [of c 1] c by simp
  have "\<bar>d - c\<bar> \<le> 2 powi (0 - 53)"
    unfolding d_def using c by (intro binary64_round_error) simp_all
  then have de: "\<bar>d - c\<bar> \<le> 1 / 2 ^ 53"
    by (simp add: power_int_def power_divide)
  have p0: "0 \<le> d * 100" using d0 by simp
  have p1: "d * 100 \<le> of_int 100" using d1 by simp
  have flp: "fl (d * 100) = Finite t"
    unfolding t_def using fl_Finite [OF p0 p1] by simp
  have t0: "0 \<le> t" unfolding t_def by (rule binary64_round_nonneg [OF p0])
  have t1: "t \<le> 100" unfolding t_def using binary64_round_le_int [OF p0 p1] by simp
  have "\<bar>t - d * 100\<bar> \<le> 2 powi (7 - 53)"
    unfolding t_def using p0 p1 by (intro binary64_round_error) simp_all
  then have te: "\<bar>t - d * 100\<bar> \<le> 1 / 2 ^ 46"
    by (simp add: power_int_def power_divide)
  have kk: "int k < 2 ^ 32" using k by simp
  have x0: "0 \<le> a + t" using a(1) t0 by simp
  have x1: "a + t \<le> of_int (100 * (int k + 1))" using a(2) t1 by simp
  have N: "100 * (int k + 1) < 2 ^ 53" using kk by simp
  have fla: "fl (a + t) = Finite a'"
    unfolding a'_def by (rule fl_Finite [OF x0 x1 N])
  have a0: "0 \<le> a'" unfolding a'_def by (rule binary64_round_nonneg [OF x0])
  have a1: "a' \<le> 100 * of_nat (Suc k)"
    unfolding a'_def using binary64_round_le_int [OF x0 x1 N] by simp
  have "(of_int (100 * (int k + 1)) :: rat) \<le> of_int (2 ^ 39)"
    using kk by (simp only: of_int_le_iff) simp
  then have "a + t \<le> 2 powi 39" using x1 by simp
  then have "\<bar>a' - (a + t)\<bar> \<le> 2 powi (39 - 53)"
    unfolding a'_def using x0 by (intro binary64_round_error) simp_all
  then have ae: "\<bar>a' - (a + t)\<bar> \<le> 1 / 2 ^ 14"
    by (simp add: power_int_def power_divide)
  have split: "a' - (a + c * 100) = (a' - (a + t)) + ((t - d * 100) + 100 * (d - c))"
    by simp
  have "\<bar>a' - (a + c * 100)\<bar> \<le> \<bar>a' - (a + t)\<bar> + \<bar>(t - d * 100) + 100 * (d - c)\<bar>"
    unfolding split by (rule abs_triangle_ineq)
  also have "\<dots> \<le> \<bar>a' - (a + t)\<bar> + (\<bar>t - d * 100\<bar> + \<bar>100 * (d - c)\<bar>)"
    by (intro add_left_mono abs_triangle_ineq)
  also have "\<bar>100 * (d - c)\<bar> = 100 * \<bar>d - c\<bar>"
    by (simp only: abs_mult abs_numeral)
  also have "\<bar>a' - (a + t)\<bar> + (\<bar>t - d * 100\<bar> + 100 * \<bar>d - c\<bar>)
      \<le> 1 / 2 ^ 14 + (1 / 2 ^ 46 + 100 * (1 / 2 ^ 53))"
    using ae te de by (intro add_mono mult_left_mono) simp_all
  also have "\<dots> \<le> 1 / 8192" by simp
  finally have err: "\<bar>a' - (a + c * 100)\<bar> \<le> 1 / 8192" .
  have "num_add (Finite a) (num_mul (fl c) (Finite 100)) = Finite a'"
    by (simp add: flc flp fla)
  with a0 a1 err show ?thesis by blast
qed

lemma foldl_sum_bounds:
  fixes opps :: "opportunity list"
  assumes "\<forall>opp \<in> set opps. 0 \<le> confidence_score opp \<and> confidence_score opp \<le> 1"
    and "0 \<le> a" and "a \<le> 100 * of_nat k" and "k + length opps \<le> 2 ^ 32"
  shows "\<exists>r. foldl (\<lambda>sum opp. num_add sum (num_mul (fl (confidence_score opp)) (Finite 100)))
                (Finite a) opps = Finite r \<and>
           0 \<le> r \<and> r \<le> 100 * of_nat (k + length opps) \<and>
           \<bar>r - (a + sum_list (map (\<lambda>opp. confidence_score opp * 100) opps))\<bar>
             \<le> of_nat (length opps) / 8192"
  using assms
proof (induction opps arbitrary: a k)
  case Nil
  then show ?case by simp
next
  case (Cons opp opps)
  from Cons.prems have c: "0 \<le> confidence_score opp" "confidence_score opp \<le> 1"
    and k: "k < 2 ^ 32" by simp_all
  from sum_step [OF c Cons.prems(2,3) k] obtain a' where
    step: "num_add (Finite a) (num_mul (fl (confidence_score opp)) (Finite 100)) = Finite a'"
    and a': "0 \<le> a'" "a' \<le> 100 * of_nat (Suc k)"
    and e1: "\<bar>a' - (a + confidence_score opp * 100)\<bar> \<le> 1 / 8192"
    by blast
  from Cons.prems have rest: "\<forall>x \<in> set opps. 0 \<le> confidence_score x \<and> confidence_score x \<le> 1"
    and len: "Suc k + length opps \<le> 2 ^ 32" by simp_all
  from Cons.IH [OF rest a' len] obtain r where
    r: "foldl (\<lambda>sum opp. num_add sum (num_mul (fl (confidence_score opp)) (Finite 100)))
          (Finite a') opps = Finite r"
    and r0: "0 \<le> r" and r1: "r \<le> 100 * of_nat (Suc k + length opps)"
    and e2: "\<bar>r - (a' + sum_list (map (\<lambda>opp. confidence_score opp * 100) opps))\<bar>
               \<le> of_nat (length opps) / 8192"
    by blast
  define S where "S = sum_list (map (\<lambda>opp. confidence_score opp * 100) opps)"
  have total: "sum_list (map (\<lambda>opp. confidence_score opp * 100) (opp # opps)) =
      confidence_score opp * 100 + S"
    by (simp add: S_def)
  have count: "(of_nat (length (opp # opps)) :: rat) / 8192 = 1 / 8192 + of_nat (length opps) / 8192"
    by (simp add: add_divide_distrib)
  have "\<bar>r - (a + (confidence_score opp * 100 + S))\<bar>
          \<le> 1 / 8192 + of_nat (length opps) / 8192"
    using e1 e2 unfolding S_def [symmetric] by linarith
  then have "\<bar>r - (a + sum_list (map (\<lambda>opp. confidence_score opp * 100) (opp # opps)))\<bar>
          \<le> of_nat (length (opp # opps)) / 8192"
    unfolding total count .
  with r r0 r1 step show ?case by simp
qed


lemma Math_round_error: "\<bar>of_int \<lfloor>m + 1 / 2\<rfloor> - m\<bar> \<le> 1 / 2" for m :: rat
  by linarith

lemma avgConfidence_in_range:
  assumes "opps \<noteq> []" and "length opps < 2 ^ 32"
    and "\<forall>opp \<in> set opps. 0 \<le> confidence_score opp \<and> confidence_score opp \<le> 1"
  shows "\<exists>k. avgConfidence (App_stats opps) = Finite (of_int k) \<and> 0 \<le> k \<and> k \<le> 100 \<and>
           \<bar>of_int k - sum_list (map (\<lambda>opp. confidence_score opp * 100) opps)
                        / of_nat (length opps)\<bar> \<le> 1 / 2 + 1 / 4096"
proof -
  define S where "S = sum_list (map (\<lambda>opp. confidence_score opp * 100) opps)"
  define n :: rat where "n = of_nat (length opps)"
  have npos: "0 < n" using assms(1) by (simp add: n_def)
  from foldl_sum_bounds [of opps 0 0] assms obtain r where
    r: "foldl (\<lambda>sum opp. num_add sum (num_mul (fl (confidence_score opp)) (Finite 100)))
          (Finite 0) opps = Finite r"
    and r0: "0 \<le> r" and r1: "r \<le> 100 * n" and e1: "\<bar>r - S\<bar> \<le> n / 8192"
    unfolding S_def n_def by auto
  define m where "m = binary64_round (r / n)"
  define k where "k = \<lfloor>m + 1 / 2\<rfloor>"
  have q0: "0 \<le> r / n" using r0 npos by simp
  have q1: "r / n \<le> of_int 100" using r1 npos by (simp add: pos_divide_le_eq)
  have flq: "fl (r / n) = Finite m"
    unfolding m_def using fl_Finite [OF q0 q1] by simp
  have m0: "0 \<le> m" unfolding m_def by (rule binary64_round_nonneg [OF q0])
  have m1: "m \<le> 100" unfolding m_def using binary64_round_le_int [OF q0 q1] by simp
  have "\<bar>m - r / n\<bar> \<le> 2 powi (7 - 53)"
    unfolding m_def using q0 q1 by (intro binary64_round_error) simp_all
  then have e2: "\<bar>m - r / n\<bar> \<le> 1 / 2 ^ 46"
    by (simp add: power_int_def power_divide)
  have "\<bar>r / n - S / n\<bar> = \<bar>r - S\<bar> / n"
    using npos by (simp add: diff_divide_distrib [symmetric])
  also have "\<dots> \<le> (n / 8192) / n"
    using e1 npos by (intro divide_right_mono) simp_all
  also have "\<dots> = 1 / 8192" using npos by simp
  finally have e3: "\<bar>r / n - S / n\<bar> \<le> 1 / 8192" .
  have e4: "\<bar>of_int k - m\<bar> \<le> 1 / 2" unfolding k_def by (rule Math_round_error)
  have k0: "0 \<le> k" unfolding k_def using m0 by simp
  have k1: "k \<le> 100" unfolding k_def using m1 by linarith
  have split: "of_int k - S / n = (of_int k - m) + ((m - r / n) + (r / n - S / n))"
    by simp
  have "\<bar>of_int k - S / n\<bar> \<le> \<bar>of_int k - m\<bar> + \<bar>(m - r / n) + (r / n - S / n)\<bar>"
    unfolding split by (rule abs_triangle_ineq)
  also have "\<dots> \<le> \<bar>of_int k - m\<bar> + (\<bar>m - r / n\<bar> + \<bar>r / n - S / n\<bar>)"
    by (intro add_left_mono abs_triangle_ineq)
  also have "\<dots> \<le> 1 / 2 + (1 / 2 ^ 46 + 1 / 8192)"
    using e2 e3 e4 by (intro add_mono) simp_all
  also have "\<dots> \<le> 1 / 2 + 1 / 4096" by simp
  finally have err: "\<bar>of_int k - S / n\<bar> \<le> 1 / 2 + 1 / 4096" .
  have "n \<noteq> 0" using npos by simp
  then have "avgConfidence (App_stats opps) = Finite (of_int k)"
    using assms(1) r flq by (simp add: App_stats_def n_def [symmetric] k_def)
  with k0 k1 err show ?thesis unfolding S_def n_def by blast
qed

text \<open>
  The statistic on sample stores, each operation rounded as the runtime rounds it: the
  three sample rows (0.85, 0.55, 0.9), the row with 0.6849999999999999, and the stores
  [0.285], [0.57, 0.58] and [0.026, 0.854, 0.335], whose exact means 28.5, 57.5 and 40.5
  are computed just below the half.
\<close>

lemma avgConfidence_row_0685:
  "avgConfidence (App_stats [row_0685]) = Finite 69"
proof -
  have r1: "fl (6849999999999999 / 10000000000000000) = Finite (6169931489497579 / 9007199254740992)"
    using fl_eqI [of "- 1" "6849999999999999 / 10000000000000000" 6169931489497579]
    by (simp add: power_int_def power_divide)
  have r2: "fl (154248287237439475 / 2251799813685248) = Finite (137 / 2)"
    using fl_eqI [of "6" "154248287237439475 / 2251799813685248" 4820258976169984]
    by (simp add: power_int_def power_divide)
  have r3: "fl (137 / 2) = Finite (137 / 2)"
    using fl_eqI [of "6" "137 / 2" 4820258976169984]
    by (simp add: power_int_def power_divide)
  have nearest: "\<lfloor>(69 :: rat)\<rfloor> = 69"
    by (simp add: floor_eq_iff)
  show ?thesis
    by (simp add: App_stats_def row_0685_def
        r1 r2 r3 nearest)
qed

lemma avgConfidence_three_rows:
  "avgConfidence (App_stats [row_AAPL, row_TSLA, row_unpersisted]) = Finite 77"
proof -
  have r1: "fl (17 / 20) = Finite (7656119366529843 / 9007199254740992)"
    using fl_eqI [of "- 1" "17 / 20" 7656119366529843]
    by (simp add: power_int_def power_divide)
  have r2: "fl (191402984163246075 / 2251799813685248) = Finite 85"
    using fl_eqI [of "6" "191402984163246075 / 2251799813685248" 5981343255101440]
    by (simp add: power_int_def power_divide)
  have r3: "fl 85 = Finite 85"
    using fl_eqI [of "6" "85" 5981343255101440]
    by (simp add: power_int_def power_divide)
  have r4: "fl (11 / 20) = Finite (2476979795053773 / 4503599627370496)"
    using fl_eqI [of "- 1" "11 / 20" 4953959590107546]
    by (simp add: power_int_def power_divide)
  have r5: "fl (61924494876344325 / 1125899906842624) = Finite (7740561859543041 / 140737488355328)"
    using fl_eqI [of "5" "61924494876344325 / 1125899906842624" 7740561859543041]
    by (simp add: power_int_def power_divide)
  have r6: "fl (19703248369745921 / 140737488355328) = Finite 140"
    using fl_eqI [of "7" "19703248369745921 / 140737488355328" 4925812092436480]
    by (simp add: power_int_def power_divide)
  have r7: "fl (9 / 10) = Finite (8106479329266893 / 9007199254740992)"
    using fl_eqI [of "- 1" "9 / 10" 8106479329266893]
    by (simp add: power_int_def power_divide)
  have r8: "fl (202661983231672325 / 2251799813685248) = Finite 90"
    using fl_eqI [of "6" "202661983231672325 / 2251799813685248" 6333186975989760]
    by (simp add: power_int_def power_divide)
  have r9: "fl 230 = Finite 230"
    using fl_eqI [of "7" "230" 8092405580431360]
    by (simp add: power_int_def power_divide)
  have r10: "fl (230 / 3) = Finite (5394937053620907 / 70368744177664)"
    using fl_eqI [of "6" "230 / 3" 5394937053620907]
    by (simp add: power_int_def power_divide)
  have nearest: "\<lfloor>(5430121425709739 / 70368744177664 :: rat)\<rfloor> = 77"
    by (simp add: floor_eq_iff)
  show ?thesis
    by (simp add: App_stats_def row_AAPL_def row_TSLA_def row_unpersisted_def
        r1 r2 r3 r4 r5 r6 r7 r8 r9 r10 nearest)
qed

lemma avgConfidence_0285:
  "avgConfidence (App_stats [row_AAPL\<lparr>confidence_score := 285 / 1000\<rparr>]) = Finite 28"
proof -
  have r1: "fl (57 / 200) = Finite (5134103575202365 / 18014398509481984)"
    using fl_eqI [of "- 2" "57 / 200" 5134103575202365]
    by (simp add: power_int_def power_divide)
  have r2: "fl (128352589380059125 / 4503599627370496) = Finite (8022036836253695 / 281474976710656)"
    using fl_eqI [of "4" "128352589380059125 / 4503599627370496" 8022036836253695]
    by (simp add: power_int_def power_divide)
  have r3: "fl (8022036836253695 / 281474976710656) = Finite (8022036836253695 / 281474976710656)"
    using fl_eqI [of "4" "8022036836253695 / 281474976710656" 8022036836253695]
    by (simp add: power_int_def power_divide)
  have nearest: "\<lfloor>(8162774324609023 / 281474976710656 :: rat)\<rfloor> = 28"
    by (simp add: floor_eq_iff)
  show ?thesis
    by (simp add: App_stats_def row_AAPL_def
        r1 r2 r3 nearest)
qed

lemma avgConfidence_057_058:
  "avgConfidence (App_stats [row_AAPL\<lparr>confidence_score := 57 / 100\<rparr>,
       row_TSLA\<lparr>confidence_score := 58 / 100\<rparr>]) = Finite 57"
proof -
  have r1: "fl (57 / 100) = Finite (5134103575202365 / 9007199254740992)"
    using fl_eqI [of "- 1" "57 / 100" 5134103575202365]
    by (simp add: power_int_def power_divide)
  have r2: "fl (128352589380059125 / 2251799813685248) = Finite (8022036836253695 / 140737488355328)"
    using fl_eqI [of "5" "128352589380059125 / 2251799813685248" 8022036836253695]
    by (simp add: power_int_def power_divide)
  have r3: "fl (8022036836253695 / 140737488355328) = Finite (8022036836253695 / 140737488355328)"
    using fl_eqI [of "5" "8022036836253695 / 140737488355328" 8022036836253695]
    by (simp add: power_int_def power_divide)
  have r4: "fl (29 / 50) = Finite (5224175567749775 / 9007199254740992)"
    using fl_eqI [of "- 1" "29 / 50" 5224175567749775]
    by (simp add: power_int_def power_divide)
  have r5: "fl (130604389193744375 / 2251799813685248) = Finite (8162774324609023 / 140737488355328)"
    using fl_eqI [of "5" "130604389193744375 / 2251799813685248" 8162774324609023]
    by (simp add: power_int_def power_divide)
  have r6: "fl (8092405580431359 / 70368744177664) = Finite (8092405580431359 / 70368744177664)"
    using fl_eqI [of "6" "8092405580431359 / 70368744177664" 8092405580431359]
    by (simp add: power_int_def power_divide)
  have r7: "fl (8092405580431359 / 140737488355328) = Finite (8092405580431359 / 140737488355328)"
    using fl_eqI [of "5" "8092405580431359 / 140737488355328" 8092405580431359]
    by (simp add: power_int_def power_divide)
  have nearest: "\<lfloor>(8162774324609023 / 140737488355328 :: rat)\<rfloor> = 57"
    by (simp add: floor_eq_iff)
  show ?thesis
    by (simp add: App_stats_def row_AAPL_def row_TSLA_def
        r1 r2 r3 r4 r5 r6 r7 nearest)
qed

lemma avgConfidence_0026_0854_0335:
  "avgConfidence (App_stats [row_AAPL\<lparr>confidence_score := 26 / 1000\<rparr>,
       row_TSLA\<lparr>confidence_score := 854 / 1000\<rparr>,
       row_070\<lparr>confidence_score := 335 / 1000\<rparr>]) = Finite 40"
proof -
  have r1: "fl (13 / 500) = Finite (7493989779944505 / 288230376151711744)"
    using fl_eqI [of "- 6" "13 / 500" 7493989779944505]
    by (simp add: power_int_def power_divide)
  have r2: "fl (187349744498612625 / 72057594037927936) = Finite (5854679515581645 / 2251799813685248)"
    using fl_eqI [of "1" "187349744498612625 / 72057594037927936" 5854679515581645]
    by (simp add: power_int_def power_divide)
  have r3: "fl (5854679515581645 / 2251799813685248) = Finite (5854679515581645 / 2251799813685248)"
    using fl_eqI [of "1" "5854679515581645 / 2251799813685248" 5854679515581645]
    by (simp add: power_int_def power_divide)
  have r4: "fl (427 / 500) = Finite (7692148163548807 / 9007199254740992)"
    using fl_eqI [of "- 1" "427 / 500" 7692148163548807]
    by (simp add: power_int_def power_divide)
  have r5: "fl (192303704088720175 / 2251799813685248) = Finite (6009490752772505 / 70368744177664)"
    using fl_eqI [of "6" "192303704088720175 / 2251799813685248" 6009490752772505]
    by (simp add: power_int_def power_divide)
  have r6: "fl (198158383604301805 / 2251799813685248) = Finite (6192449487634431 / 70368744177664)"
    using fl_eqI [of "6" "198158383604301805 / 2251799813685248" 6192449487634431]
    by (simp add: power_int_def power_divide)
  have r7: "fl (67 / 200) = Finite (6034823500676465 / 18014398509481984)"
    using fl_eqI [of "- 2" "67 / 200" 6034823500676465]
    by (simp add: power_int_def power_divide)
  have r8: "fl (150870587516911625 / 4503599627370496) = Finite (67 / 2)"
    using fl_eqI [of "5" "150870587516911625 / 4503599627370496" 4714705859903488]
    by (simp add: power_int_def power_divide)
  have r9: "fl (8549802417586175 / 70368744177664) = Finite (8549802417586175 / 70368744177664)"
    using fl_eqI [of "6" "8549802417586175 / 70368744177664" 8549802417586175]
    by (simp add: power_int_def power_divide)
  have r10: "fl (8549802417586175 / 211106232532992) = Finite (5699868278390783 / 140737488355328)"
    using fl_eqI [of "5" "8549802417586175 / 211106232532992" 5699868278390783]
    by (simp add: power_int_def power_divide)
  have nearest: "\<lfloor>(5770237022568447 / 140737488355328 :: rat)\<rfloor> = 40"
    by (simp add: floor_eq_iff)
  show ?thesis
    by (simp add: App_stats_def row_AAPL_def row_TSLA_def row_070_def
        r1 r2 r3 r4 r5 r6 r7 r8 r9 r10 nearest)
qed

text \<open>
  In double arithmetic \<^verbatim>\<open>0.7 * 100\<close> is exactly 70, so the dashboard's comparison
  \<^verbatim>\<open>(opp.confidence_score * 100) >= 70\<close> holds for the row whose score is 0.7.
\<close>

lemma double_070_times_100:
  "num_mul (fl (confidence_score row_070)) (Finite 100) = Finite 70"
proof -
  have r1: "fl (7 / 10) = Finite (3152519739159347 / 4503599627370496)"
    using fl_eqI [of "- 1" "7 / 10" 6305039478318694]
    by (simp add: power_int_def power_divide)
  have r2: "fl (78812993478983675 / 1125899906842624) = Finite 70"
    using fl_eqI [of "6" "78812993478983675 / 1125899906842624" 4925812092436480]
    by (simp add: power_int_def power_divide)
  show ?thesis
    by (simp add: row_070_def r1 r2)
qed

lemma double_of_0685:
  "fl (confidence_score row_0685) = Finite (6169931489497579 / 9007199254740992)"
  using fl_eqI [of "- 1" "6849999999999999 / 10000000000000000" 6169931489497579]
  by (simp add: row_0685_def power_int_def power_divide)

text \<open>
  The double nearest to 0.6849999999999999, multiplied by 100, rounds up to 68.5, and
  \<^verbatim>\<open>Math.round\<close> makes it 69. The exact mean of the store is 68.49999999999999: its nearest
  integer is 68, and 69 is more than one half away from it, whether the mean is taken of
  the decimal score or of the double nearest to it.
\<close>

theorem avgConfidence_not_nearest_counterexample:
  "avgConfidence (App_stats [row_0685]) = Finite 69 \<and>
   confidence_score row_0685 * 100 / of_nat (length [row_0685]) =
     6849999999999999 / 100000000000000 \<and>
   \<lfloor>(6849999999999999 / 100000000000000 :: rat) + 1 / 2\<rfloor> = 68 \<and>
   1 / 2 < \<bar>69 - (6849999999999999 / 100000000000000 :: rat)\<bar> \<and>
   fl (confidence_score row_0685) = Finite (6169931489497579 / 9007199254740992) \<and>
   1 / 2 < \<bar>69 - (6169931489497579 / 9007199254740992 :: rat) * 100\<bar>"
  using avgConfidence_row_0685 double_of_0685 by (simp add: row_0685_def floor_eq_iff)

text \<open>
  Claim C7, as the code has it. The average confidence of the dashboard's \<^verbatim>\<open>stats\<close> is 0
  for the empty store: the division is guarded by \<^verbatim>\<open>opportunities.length > 0\<close>, and without
  the guard the expression would be \<^verbatim>\<open>Math.round(0 / 0)\<close>, which is \<^verbatim>\<open>NaN\<close>. For a
  non-empty store it is \<^verbatim>\<open>Math.round\<close> of the mean of \<^verbatim>\<open>confidence_score * 100\<close> as the
  runtime computes it, every product, every partial sum and the quotient rounded to the
  nearest double. When the store has fewer than \<open>2 ^ 32\<close> rows and every score lies between
  0 and 1, the result is an integer between 0 and 100, never \<^verbatim>\<open>NaN\<close>, and within
  \<open>1 / 2 + 1 / 4096\<close> of the exact mean.
\<close>

theorem avgConfidence_double_mean:
  "avgConfidence (App_stats []) = Finite 0 \<and>
   Math_round (num_div
       (foldl (\<lambda>sum opp. num_add sum (num_mul (fl (confidence_score opp)) (Finite 100)))
          (Finite 0) [])
       (Finite (of_nat (length ([] :: opportunity list))))) = NaN \<and>
   (opps \<noteq> [] \<longrightarrow>
      avgConfidence (App_stats opps) =
        Math_round (num_div
          (foldl (\<lambda>sum opp. num_add sum (num_mul (fl (confidence_score opp)) (Finite 100)))
             (Finite 0) opps)
          (Finite (of_nat (length opps))))) \<and>
   (opps \<noteq> [] \<and> length opps < 2 ^ 32 \<and>
    (\<forall>opp \<in> set opps. 0 \<le> confidence_score opp \<and> confidence_score opp \<le> 1) \<longrightarrow>
      (\<exists>k. avgConfidence (App_stats opps) = Finite (of_int k) \<and> 0 \<le> k \<and> k \<le> 100 \<and>
           \<bar>of_int k - sum_list (map (\<lambda>opp. confidence_score opp * 100) opps)
                        / of_nat (length opps)\<bar> \<le> 1 / 2 + 1 / 4096))"
proof (intro conjI impI)
  show "avgConfidence (App_stats []) = Finite 0"
    by (simp add: App_stats_def)
next
  show "Math_round (num_div
       (foldl (\<lambda>sum opp. num_add sum (num_mul (fl (confidence_score opp)) (Finite 100)))
          (Finite 0) [])
       (Finite (of_nat (length ([] :: opportunity list))))) = NaN"
    by simp
next
  assume "opps \<noteq> []"
  then show "avgConfidence (App_stats opps) =
        Math_round (num_div
          (foldl (\<lambda>sum opp. num_add sum (num_mul (fl (confidence_score opp)) (Finite 100)))
             (Finite 0) opps)
          (Finite (of_nat (length opps))))"
    by (simp add: App_stats_def)
next
  assume "opps \<noteq> [] \<and> length opps < 2 ^ 32 \<and>
    (\<forall>opp \<in> set opps. 0 \<le> confidence_score opp \<and> confidence_score opp \<le> 1)"
  then show "\<exists>k. avgConfidence (App_stats opps) = Finite (of_int k) \<and> 0 \<le> k \<and> k \<le> 100 \<and>
           \<bar>of_int k - sum_list (map (\<lambda>opp. confidence_score opp * 100) opps)
                        / of_nat (length opps)\<bar> \<le> 1 / 2 + 1 / 4096"
    by (intro avgConfidence_in_range) simp_all
qed

theorem avgConfidence_double_mean_witness:
  "[row_AAPL, row_TSLA, row_unpersisted] \<noteq> [] \<and>
   length [row_AAPL, row_TSLA, row_unpersisted] < 2 ^ 32 \<and>
   0 \<le> confidence_score row_AAPL \<and> confidence_score row_AAPL \<le> 1 \<and>
   0 \<le> confidence_score row_TSLA \<and> confidence_score row_TSLA \<le> 1 \<and>
   0 \<le> confidence_score row_unpersisted \<and> confidence_score row_unpersisted \<le> 1 \<and>
   avgConfidence (App_stats [row_AAPL, row_TSLA, row_unpersisted]) = Finite 77 \<and>
   \<bar>77 - sum_list (map (\<lambda>opp. confidence_score opp * 100)
            [row_AAPL, row_TSLA, row_unpersisted])
          / of_nat (length [row_AAPL, row_TSLA, row_unpersisted])\<bar> \<le> 1 / 2 + 1 / 4096"
  using avgConfidence_double_mean [of "[row_AAPL, row_TSLA, row_unpersisted]"]
    avgConfidence_three_rows
  by (simp add: row_AAPL_def row_TSLA_def row_unpersisted_def)

text \<open>
  Claim C1. The high-confidence count should be the number of rows with a score of at
  least 0.7. The dashboard's \<^verbatim>\<open>stats\<close> computes that (the lemma above), but the Home page
  counts with \<^verbatim>\<open>opp.confidence_score > 0.7\<close>: when the list endpoint returns the single row
  whose score is exactly 0.7, the Home page stores the row and reports 0 high-confidence
  rows, where the dashboard reports 1.
\<close>

theorem Home_highConfidence_misses_070:
  "Home.opportunities (fst (loadDashboardData backend_070 (Home_initial, world_initial))) = [row_070] \<and>
   confidence_score row_070 \<ge> 7 / 10 \<and>
   Home_stats.highConfidence
     (Home.stats (fst (loadDashboardData backend_070 (Home_initial, world_initial)))) = 0 \<and>
   App_stats_obj.highConfidence (App_stats [row_070]) = 1"
  by (simp add: loadDashboardData_def loadDashboardData_try_def axios_get_def backend_070_def
      data_or_empty_def calculate_stats_def row_070_def App_stats_def)


subsection \<open>The operations, path by path\<close>

lemma loadExistingOpportunities_rejected:
  assumes "list_opportunities b (requests w @ [opportunities_request]) = Rejected m"
  shows "loadExistingOpportunities b (s, w) =
           (s, w\<lparr>requests := requests w @ [opportunities_request],
                 console := console w @ [''Failed to load existing opportunities: '' @ m]\<rparr>)"
  using assms
  by (simp add: loadExistingOpportunities_def axios_get_def console_log_def
      opportunities_request_def)

lemma App_loadExistingOpportunities_rejected:
  assumes "list_opportunities b (requests w @ [opportunities_request]) = Rejected m"
  shows "App_loadExistingOpportunities b (a, w) =
           (a, w\<lparr>requests := requests w @ [opportunities_request],
                 console := console w @ [''Failed to load existing opportunities: '' @ m]\<rparr>)"
  using assms
  by (simp add: App_loadExistingOpportunities_def axios_get_def console_log_def
      opportunities_request_def)

lemma runTechnicalAnalysis_try_cases:
  "runTechnicalAnalysis_try b (s, w) =
     (case research b (requests w @ [research_request]) of
        Rejected m \<Rightarrow> (Some m, s, w\<lparr>requests := requests w @ [research_request]\<rparr>)
      | Resolved triggered \<Rightarrow>
          (case list_opportunities b (requests w @ [research_request, opportunities_request]) of
             Rejected m \<Rightarrow>
               (Some m, s,
                w\<lparr>requests := requests w @ [research_request, opportunities_request]\<rparr>)
           | Resolved response \<Rightarrow>
               (None,
                s\<lparr>Opportunities.opportunities := data_or_empty response,
                  Opportunities.lastAnalysisTime := Some (clock w)\<rparr>,
                w\<lparr>requests := requests w @ [research_request, opportunities_request]\<rparr>)))"
  by (simp add: runTechnicalAnalysis_try_def axios_post_def axios_get_def
      research_request_def opportunities_request_def split: outcome.split)

lemma App_runTechnicalAnalysis_try_cases:
  "App_runTechnicalAnalysis_try b (a, w) =
     (case research b (requests w @ [research_request]) of
        Rejected m \<Rightarrow> (Some m, a, w\<lparr>requests := requests w @ [research_request]\<rparr>)
      | Resolved triggered \<Rightarrow>
          (case list_opportunities b (requests w @ [research_request, opportunities_request]) of
             Rejected m \<Rightarrow>
               (Some m, a,
                w\<lparr>requests := requests w @ [research_request, opportunities_request]\<rparr>)
           | Resolved response \<Rightarrow>
               (None,
                a\<lparr>App.opportunities := data_or_empty response,
                  App.lastAnalysisTime := Some (clock w)\<rparr>,
                w\<lparr>requests := requests w @ [research_request, opportunities_request]\<rparr>)))"
  by (simp add: App_runTechnicalAnalysis_try_def axios_post_def axios_get_def
      research_request_def opportunities_request_def split: outcome.split)

lemma runTechnicalAnalysis_trigger_rejected:
  assumes "research b (requests w @ [research_request]) = Rejected m"
  shows "runTechnicalAnalysis b (s, w) =
           (s\<lparr>Opportunities.loading := False,
              Opportunities.error := Some (''Failed to fetch trading opportunities: '' @ m),
              Opportunities.isAgentRunning := False\<rparr>,
            w\<lparr>requests := requests w @ [research_request]\<rparr>)"
  using assms by (simp add: runTechnicalAnalysis_def runTechnicalAnalysis_try_cases)

lemma runTechnicalAnalysis_list_rejected:
  assumes "research b (requests w @ [research_request]) = Resolved triggered"
    and "list_opportunities b (requests w @ [research_request, opportunities_request]) = Rejected m"
  shows "runTechnicalAnalysis b (s, w) =
           (s\<lparr>Opportunities.loading := False,
              Opportunities.error := Some (''Failed to fetch trading opportunities: '' @ m),
              Opportunities.isAgentRunning := False\<rparr>,
            w\<lparr>requests := requests w @ [research_request, opportunities_request]\<rparr>)"
  using assms by (simp add: runTechnicalAnalysis_def runTechnicalAnalysis_try_cases)

lemma runTechnicalAnalysis_resolved:
  assumes "research b (requests w @ [research_request]) = Resolved triggered"
    and "list_opportunities b (requests w @ [research_request, opportunities_request]) =
           Resolved response"
  shows "runTechnicalAnalysis b (s, w) =
           (s\<lparr>Opportunities.opportunities := data_or_empty response,
              Opportunities.loading := False, Opportunities.error := None,
              Opportunities.isAgentRunning := False,
              Opportunities.lastAnalysisTime := Some (clock w)\<rparr>,
            w\<lparr>requests := requests w @ [research_request, opportunities_request]\<rparr>)"
  using assms by (simp add: runTechnicalAnalysis_def runTechnicalAnalysis_try_cases)

lemma App_runTechnicalAnalysis_trigger_rejected:
  assumes "research b (requests w @ [research_request]) = Rejected m"
  shows "App_runTechnicalAnalysis b (a, w) =
           (a\<lparr>App.loading := False,
              App.error := Some (''Failed to fetch trading opportunities: '' @ m),
              App.isAgentRunning := False\<rparr>,
            w\<lparr>requests := requests w @ [research_request]\<rparr>)"
  using assms by (simp add: App_runTechnicalAnalysis_def App_runTechnicalAnalysis_try_cases)

lemma App_runTechnicalAnalysis_list_rejected:
  assumes "research b (requests w @ [research_request]) = Resolved triggered"
    and "list_opportunities b (requests w @ [research_request, opportunities_request]) = Rejected m"
  shows "App_runTechnicalAnalysis b (a, w) =
           (a\<lparr>App.loading := False,
              App.error := Some (''Failed to fetch trading opportunities: '' @ m),
              App.isAgentRunning := False\<rparr>,
            w\<lparr>requests := requests w @ [research_request, opportunities_request]\<rparr>)"
  using assms by (simp add: App_runTechnicalAnalysis_def App_runTechnicalAnalysis_try_cases)

lemma App_runTechnicalAnalysis_resolved:
  assumes "research b (requests w @ [research_request]) = Resolved triggered"
    and "list_opportunities b (requests w @ [research_request, opportunities_request]) =
           Resolved response"
  shows "App_runTechnicalAnalysis b (a, w) =
           (a\<lparr>App.opportunities := data_or_empty response,
              App.loading := False, App.error := None,
              App.isAgentRunning := False,
              App.lastAnalysisTime := Some (clock w)\<rparr>,
            w\<lparr>requests := requests w @ [research_request, opportunities_request]\<rparr>)"
  using assms by (simp add: App_runTechnicalAnalysis_def App_runTechnicalAnalysis_try_cases)


subsection \<open>Running the analysis\<close>

text \<open>
  Claim C9. Whatever the backend answers, \<^verbatim>\<open>runTechnicalAnalysis\<close> ends with
  \<^verbatim>\<open>loading = false\<close> and \<^verbatim>\<open>isAgentRunning = false\<close>, on the Opportunities page and on the
  dashboard, so the control that starts a run is enabled again.
\<close>

theorem runTechnicalAnalysis_releases_guard:
  "Opportunities.loading (fst (runTechnicalAnalysis b (s, w))) = False \<and>
   Opportunities.isAgentRunning (fst (runTechnicalAnalysis b (s, w))) = False \<and>
   run_disabled (fst (runTechnicalAnalysis b (s, w))) = False \<and>
   App.loading (fst (App_runTechnicalAnalysis b (a, w))) = False \<and>
   App.isAgentRunning (fst (App_runTechnicalAnalysis b (a, w))) = False \<and>
   App_run_disabled (fst (App_runTechnicalAnalysis b (a, w))) = False"
  by (simp add: runTechnicalAnalysis_def App_runTechnicalAnalysis_def run_disabled_def
      App_run_disabled_def split: prod.split option.split)

text \<open>
  Claim C4. A run first sends the POST to \<^verbatim>\<open>/research\<close>. If that is rejected nothing else is
  sent and the store is unchanged. Otherwise the authenticated GET of \<^verbatim>\<open>/opportunities\<close>
  follows, and whatever the trigger answered the store is unchanged if the GET is
  rejected, empty if its body is \<^verbatim>\<open>null\<close>, and exactly the rows of its body otherwise; when
  every row of that body has an \<^verbatim>\<open>id\<close>, so has every entry of the store. The same holds
  for the dashboard's copy.
\<close>

theorem runTechnicalAnalysis_commits_list_body:
  "((\<forall>m. research b (requests w @ [research_request]) = Rejected m \<longrightarrow>
      requests (snd (runTechnicalAnalysis b (s, w))) = requests w @ [research_request] \<and>
      Opportunities.opportunities (fst (runTechnicalAnalysis b (s, w))) =
        Opportunities.opportunities s) \<and>
    (\<forall>triggered. research b (requests w @ [research_request]) = Resolved triggered \<longrightarrow>
      requests (snd (runTechnicalAnalysis b (s, w))) =
        requests w @ [research_request, opportunities_request] \<and>
      (\<forall>m. list_opportunities b (requests w @ [research_request, opportunities_request]) =
             Rejected m \<longrightarrow>
           Opportunities.opportunities (fst (runTechnicalAnalysis b (s, w))) =
             Opportunities.opportunities s) \<and>
      (list_opportunities b (requests w @ [research_request, opportunities_request]) =
             Resolved None \<longrightarrow>
           Opportunities.opportunities (fst (runTechnicalAnalysis b (s, w))) = []) \<and>
      (\<forall>rows. list_opportunities b (requests w @ [research_request, opportunities_request]) =
             Resolved (Some rows) \<longrightarrow>
           Opportunities.opportunities (fst (runTechnicalAnalysis b (s, w))) = rows \<and>
           ((\<forall>row \<in> set rows. id' row \<noteq> None) \<longrightarrow>
            (\<forall>opp \<in> set (Opportunities.opportunities (fst (runTechnicalAnalysis b (s, w)))).
               id' opp \<noteq> None))))) \<and>
   ((\<forall>m. research b (requests w @ [research_request]) = Rejected m \<longrightarrow>
      requests (snd (App_runTechnicalAnalysis b (a, w))) = requests w @ [research_request] \<and>
      App.opportunities (fst (App_runTechnicalAnalysis b (a, w))) = App.opportunities a) \<and>
    (\<forall>triggered. research b (requests w @ [research_request]) = Resolved triggered \<longrightarrow>
      requests (snd (App_runTechnicalAnalysis b (a, w))) =
        requests w @ [research_request, opportunities_request] \<and>
      (\<forall>m. list_opportunities b (requests w @ [research_request, opportunities_request]) =
             Rejected m \<longrightarrow>
           App.opportunities (fst (App_runTechnicalAnalysis b (a, w))) = App.opportunities a) \<and>
      (list_opportunities b (requests w @ [research_request, opportunities_request]) =
             Resolved None \<longrightarrow>
           App.opportunities (fst (App_runTechnicalAnalysis b (a, w))) = []) \<and>
      (\<forall>rows. list_opportunities b (requests w @ [research_request, opportunities_request]) =
             Resolved (Some rows) \<longrightarrow>
           App.opportunities (fst (App_runTechnicalAnalysis b (a, w))) = rows \<and>
           ((\<forall>row \<in> set rows. id' row \<noteq> None) \<longrightarrow>
            (\<forall>opp \<in> set (App.opportunities (fst (App_runTechnicalAnalysis b (a, w)))).
               id' opp \<noteq> None)))))"
proof (cases "research b (requests w @ [research_request])")
  case (Rejected m)
  then show ?thesis
    by (simp add: runTechnicalAnalysis_trigger_rejected
        App_runTechnicalAnalysis_trigger_rejected)
next
  case trigger: (Resolved triggered)
  show ?thesis
  proof (cases "list_opportunities b (requests w @ [research_request, opportunities_request])")
    case (Rejected m)
    with trigger show ?thesis
      by (simp add: runTechnicalAnalysis_list_rejected App_runTechnicalAnalysis_list_rejected)
  next
    case (Resolved response)
    with trigger show ?thesis
      by (simp add: runTechnicalAnalysis_resolved App_runTechnicalAnalysis_resolved
          data_or_empty_def)
  qed
qed

theorem runTechnicalAnalysis_commits_list_body_witness:
  "research backend_ok (requests world_initial @ [research_request]) =
     Resolved (Some [row_unpersisted]) \<and>
   id' row_unpersisted = None \<and>
   list_opportunities backend_ok
       (requests world_initial @ [research_request, opportunities_request]) =
     Resolved (Some [row_AAPL, row_TSLA]) \<and>
   id' row_AAPL \<noteq> None \<and> id' row_TSLA \<noteq> None \<and>
   requests (snd (runTechnicalAnalysis backend_ok (Opportunities_initial, world_initial))) =
     [research_request, opportunities_request] \<and>
   Opportunities.opportunities
       (fst (runTechnicalAnalysis backend_ok (Opportunities_initial, world_initial))) =
     [row_AAPL, row_TSLA] \<and>
   App.opportunities (fst (App_runTechnicalAnalysis backend_ok (App_initial, world_initial))) =
     [row_AAPL, row_TSLA]"
  using runTechnicalAnalysis_commits_list_body
    [of backend_ok world_initial Opportunities_initial App_initial]
  by (simp add: backend_ok_def world_initial_def data_or_empty_def row_AAPL_def row_TSLA_def
      row_unpersisted_def)

subsection \<open>The agent-connection status\<close>

lemma loadDashboardData_list_rejected:
  assumes "health b (requests w @ [health_request]) = Resolved ()"
    and "list_opportunities b (requests w @ [health_request, opportunities_request]) = Rejected m"
  shows "loadDashboardData b (h, w) =
           (h\<lparr>Home.agentStatus := ''disconnected''\<rparr>,
            w\<lparr>requests := requests w @ [health_request, opportunities_request],
              console := console w @ [''Failed to load dashboard data: '' @ m]\<rparr>)"
  using assms
  by (simp add: loadDashboardData_def loadDashboardData_try_def axios_get_def console_log_def
      health_request_def opportunities_request_def)

text \<open>
  On the Home page the health check and the list fetch share one \<^verbatim>\<open>try\<close> block. With a
  backend whose health endpoint answers and whose list endpoint answers HTTP 500, the
  status ends as \<^verbatim>\<open>disconnected\<close>; with the list endpoint answering it ends as
  \<^verbatim>\<open>connected\<close>. The list failure alone changed the field.
\<close>

theorem Home_list_failure_disconnects_counterexample:
  "health backend_list_500 (requests world_initial @ [health_request]) = Resolved () \<and>
   list_opportunities backend_list_500
       (requests world_initial @ [health_request, opportunities_request]) =
     Rejected ''Request failed with status code 500'' \<and>
   Home.agentStatus (fst (loadDashboardData backend_ok (Home_initial, world_initial))) =
     ''connected'' \<and>
   Home.agentStatus (fst (loadDashboardData backend_list_500 (Home_initial, world_initial))) =
     ''disconnected''"
  by (simp add: loadDashboardData_def loadDashboardData_try_def axios_get_def console_log_def
      backend_list_500_def backend_ok_def Let_def)

lemma loadExistingOpportunities_agentStatus:
  "Opportunities.agentStatus (fst (loadExistingOpportunities b (s, w))) =
     Opportunities.agentStatus s"
  by (simp add: loadExistingOpportunities_def axios_get_def Let_def split: outcome.split)

lemma runTechnicalAnalysis_agentStatus:
  "Opportunities.agentStatus (fst (runTechnicalAnalysis b (s, w))) =
     Opportunities.agentStatus s"
  by (simp add: runTechnicalAnalysis_def runTechnicalAnalysis_try_cases Let_def
      split: outcome.split)

text \<open>
  Claim C5, as the code has it. On the Opportunities page \<^verbatim>\<open>agentStatus\<close> is left as it was
  by \<^verbatim>\<open>loadExistingOpportunities\<close>, by \<^verbatim>\<open>runTechnicalAnalysis\<close> and by opening or closing the
  detail overlay, whether the list fetch fails or not: only \<^verbatim>\<open>checkAgentHealth\<close> writes it.
  On the Home page, \<^verbatim>\<open>loadDashboardData\<close> sets it to \<^verbatim>\<open>disconnected\<close> when the list fetch
  fails after the health check succeeded.
\<close>

theorem agentStatus_frame:
  "Opportunities.agentStatus (fst (loadExistingOpportunities b (s, w))) =
     Opportunities.agentStatus s \<and>
   Opportunities.agentStatus (fst (runTechnicalAnalysis b (s, w))) =
     Opportunities.agentStatus s \<and>
   Opportunities.agentStatus (openModal opp s) = Opportunities.agentStatus s \<and>
   Opportunities.agentStatus (closeModal s) = Opportunities.agentStatus s \<and>
   (health b (requests w @ [health_request]) = Resolved () \<and>
    list_opportunities b (requests w @ [health_request, opportunities_request]) = Rejected m
    \<longrightarrow> Home.agentStatus (fst (loadDashboardData b (h, w))) = ''disconnected'')"
  by (simp add: loadExistingOpportunities_agentStatus runTechnicalAnalysis_agentStatus
      openModal_def closeModal_def loadDashboardData_list_rejected)

theorem agentStatus_frame_witness:
  "health backend_list_500 (requests world_initial @ [health_request]) = Resolved () \<and>
   list_opportunities backend_list_500
       (requests world_initial @ [health_request, opportunities_request]) =
     Rejected ''Request failed with status code 500'' \<and>
   Home.agentStatus (fst (loadDashboardData backend_list_500 (Home_initial, world_initial))) =
     ''disconnected'' \<and>
   Opportunities.agentStatus (fst (loadExistingOpportunities backend_list_500
       (Opportunities_initial\<lparr>Opportunities.agentStatus := ''connected''\<rparr>, world_initial))) =
     ''connected'' \<and>
   Opportunities.agentStatus (fst (runTechnicalAnalysis backend_list_500
       (Opportunities_initial\<lparr>Opportunities.agentStatus := ''connected''\<rparr>, world_initial))) =
     ''connected''"
  using agentStatus_frame [of backend_list_500
      "Opportunities_initial\<lparr>Opportunities.agentStatus := ''connected''\<rparr>" world_initial
      _ "''Request failed with status code 500''" Home_initial]
  by (simp add: backend_list_500_def)

subsection \<open>A list fetch that fails\<close>

text \<open>
  When the list endpoint answers HTTP 500, \<^verbatim>\<open>loadExistingOpportunities\<close> returns the state it
  was given: the \<^verbatim>\<open>error\<close> field is still \<^verbatim>\<open>null\<close>, no message is recorded in the UI state.
\<close>

theorem load_failure_sets_no_ui_error_counterexample:
  "list_opportunities backend_list_500 (requests world_initial @ [opportunities_request]) =
     Rejected ''Request failed with status code 500'' \<and>
   fst (loadExistingOpportunities backend_list_500 (Opportunities_initial, world_initial)) =
     Opportunities_initial \<and>
   Opportunities.error
     (fst (loadExistingOpportunities backend_list_500 (Opportunities_initial, world_initial))) =
     None"
  by (simp add: loadExistingOpportunities_def axios_get_def backend_list_500_def
      Opportunities_initial_def)

text \<open>
  Claim C2, as the code has it. When the list fetch is rejected the store is left as it
  was and nothing is thrown. \<^verbatim>\<open>loadExistingOpportunities\<close> leaves the whole UI state
  unchanged and writes \<^verbatim>\<open>Failed to load existing opportunities: <message>\<close> to the console
  only; \<^verbatim>\<open>runTechnicalAnalysis\<close> sets the \<^verbatim>\<open>error\<close> field to
  \<^verbatim>\<open>Failed to fetch trading opportunities: <message>\<close>. Both texts mention
  \<^verbatim>\<open>opportunities\<close>. The same holds for the dashboard's copies.
\<close>

theorem list_fetch_failure:
  "(list_opportunities b (requests w @ [opportunities_request]) = Rejected m \<longrightarrow>
      fst (loadExistingOpportunities b (s, w)) = s \<and>
      console (snd (loadExistingOpportunities b (s, w))) =
        console w @ [''Failed to load existing opportunities: '' @ m] \<and>
      fst (App_loadExistingOpportunities b (a, w)) = a \<and>
      console (snd (App_loadExistingOpportunities b (a, w))) =
        console w @ [''Failed to load existing opportunities: '' @ m] \<and>
      includes' (''Failed to load existing opportunities: '' @ m) ''opportunities'') \<and>
   (research b (requests w @ [research_request]) = Resolved triggered \<and>
    list_opportunities b (requests w @ [research_request, opportunities_request]) = Rejected m
    \<longrightarrow>
      Opportunities.opportunities (fst (runTechnicalAnalysis b (s, w))) =
        Opportunities.opportunities s \<and>
      Opportunities.error (fst (runTechnicalAnalysis b (s, w))) =
        Some (''Failed to fetch trading opportunities: '' @ m) \<and>
      App.opportunities (fst (App_runTechnicalAnalysis b (a, w))) = App.opportunities a \<and>
      App.error (fst (App_runTechnicalAnalysis b (a, w))) =
        Some (''Failed to fetch trading opportunities: '' @ m) \<and>
      includes' (''Failed to fetch trading opportunities: '' @ m) ''opportunities'')"
  by (simp add: loadExistingOpportunities_rejected App_loadExistingOpportunities_rejected
      runTechnicalAnalysis_list_rejected App_runTechnicalAnalysis_list_rejected)

theorem list_fetch_failure_witness:
  "list_opportunities backend_list_500 (requests world_initial @ [opportunities_request]) =
     Rejected ''Request failed with status code 500'' \<and>
   research backend_list_500 (requests world_initial @ [research_request]) =
     Resolved (Some [row_unpersisted]) \<and>
   console (snd (loadExistingOpportunities backend_list_500
       (Opportunities_initial\<lparr>Opportunities.opportunities := [row_AAPL]\<rparr>, world_initial))) =
     [''Failed to load existing opportunities: Request failed with status code 500''] \<and>
   Opportunities.opportunities (fst (runTechnicalAnalysis backend_list_500
       (Opportunities_initial\<lparr>Opportunities.opportunities := [row_AAPL]\<rparr>, world_initial))) =
     [row_AAPL] \<and>
   Opportunities.error (fst (runTechnicalAnalysis backend_list_500
       (Opportunities_initial\<lparr>Opportunities.opportunities := [row_AAPL]\<rparr>, world_initial))) =
     Some ''Failed to fetch trading opportunities: Request failed with status code 500''"
  using list_fetch_failure [of backend_list_500 world_initial
      "''Request failed with status code 500''"
      "Opportunities_initial\<lparr>Opportunities.opportunities := [row_AAPL]\<rparr>" App_initial
      "Some [row_unpersisted]"]
  by (simp add: backend_list_500_def world_initial_def Opportunities_initial_def)

end
